theory Spec2Isabelle
  imports Main "HOL-Library.Sublist"
begin

section \<open>Python values\<close>

text \<open>
  Message payloads and configuration entries are JSON values. The priorities, the
  \<open>can_handle\<close>, \<open>result\<close> and \<open>handled\<close> flags are read with Python's truth test, so
  the model keeps the scalar values and lists apart (floats and nested dictionaries are
  left out).
\<close>

datatype pyval = PyNone | PyBool bool | PyInt int | PyStr string | PyList "pyval list"

fun truthy :: "pyval \<Rightarrow> bool" where
  "truthy PyNone = False"
| "truthy (PyBool b) = b"
| "truthy (PyInt n) = (n \<noteq> 0)"
| "truthy (PyStr s) = (s \<noteq> [])"
| "truthy (PyList xs) = (xs \<noteq> [])"

text \<open>Python's \<open>x or d\<close>, where \<open>x\<close> is the result of \<open>dict.get\<close> (\<open>None\<close> when the key is absent).\<close>

definition py_or :: "pyval option \<Rightarrow> pyval \<Rightarrow> pyval" where
  "py_or x d = (case x of None \<Rightarrow> d | Some v \<Rightarrow> if truthy v then v else d)"

datatype exn = TypeError | IndexError | KeyError | BusError

text \<open>
  Integers and booleans compare with integers (\<open>True\<close> is 1); comparing \<open>None\<close>, a string
  or a list with an integer raises \<open>TypeError\<close>.
\<close>

fun numeric :: "pyval \<Rightarrow> int option" where
  "numeric (PyInt n) = Some n"
| "numeric (PyBool b) = Some (if b then 1 else 0)"
| "numeric PyNone = None"
| "numeric (PyStr s) = None"
| "numeric (PyList xs) = None"

section \<open>Insertion-ordered dictionaries\<close>

text \<open>
  A Python \<open>dict\<close> keeps its keys in insertion order: assigning to a key that is present
  keeps its position, assigning to a new key appends it, \<open>pop\<close> removes it.
\<close>

type_synonym ('k, 'v) dict = "('k \<times> 'v) list"

fun dict_set :: "'k \<Rightarrow> 'v \<Rightarrow> ('k, 'v) dict \<Rightarrow> ('k, 'v) dict" where
  "dict_set k v [] = [(k, v)]"
| "dict_set k v ((k', v') # d) = (if k' = k then (k, v) # d else (k', v') # dict_set k v d)"

definition dict_pop :: "'k \<Rightarrow> ('k, 'v) dict \<Rightarrow> ('k, 'v) dict" where
  "dict_pop k d = filter (\<lambda>kv. fst kv \<noteq> k) d"

definition dict_keys :: "('k, 'v) dict \<Rightarrow> 'k list" where
  "dict_keys d = map fst d"

definition dict_get :: "('k, 'v) dict \<Rightarrow> 'k \<Rightarrow> 'v option" where
  "dict_get d k = map_of d k"

section \<open>The fallback registry (fallback\_service.py)\<close>

type_synonym skill_id = string

datatype FallbackMode = ACCEPT_ALL | BLACKLIST | WHITELIST

text \<open>
  \<open>self.fallback_config\<close>: the options the service reads, each with the default the code
  gives to \<open>dict.get\<close> (no overrides, \<open>ACCEPT_ALL\<close>, empty lists).
\<close>

record fallback_config =
  fallback_priorities :: "(skill_id, pyval) dict"
  fallback_mode :: FallbackMode
  fallback_blacklist :: "skill_id list"
  fallback_whitelist :: "skill_id list"

text \<open>\<open>self.registered_fallbacks\<close>, skill id to priority.\<close>

type_synonym registry = "(skill_id, pyval) dict"

text \<open>
  \<open>handle_register_fallback\<close>: the arguments are \<open>message.data.get("skill_id")\<close> and
  \<open>message.data.get("priority")\<close> (\<open>None\<close> when the field is absent).
\<close>

definition handle_register_fallback ::
  "fallback_config \<Rightarrow> skill_id \<Rightarrow> pyval option \<Rightarrow> registry \<Rightarrow> registry" where
  "handle_register_fallback cfg sid prio_field reg =
     (let priority = py_or prio_field (PyInt 101);
          priority_overrides = fallback_priorities cfg
      in if sid \<in> set (dict_keys priority_overrides)
         then (case dict_get priority_overrides sid of
                 Some new_priority \<Rightarrow> dict_set sid new_priority reg
               | None \<Rightarrow> dict_set sid PyNone reg)
         else dict_set sid priority reg)"

definition handle_deregister_fallback :: "skill_id \<Rightarrow> registry \<Rightarrow> registry" where
  "handle_deregister_fallback sid reg =
     (if sid \<in> set (dict_keys reg) then dict_pop sid reg else reg)"

text \<open>\<open>FallbackRange\<close>, and the comparison \<open>fb_range.start < p <= fb_range.stop\<close>.\<close>

record FallbackRange =
  start :: int
  stop :: int

definition in_band :: "FallbackRange \<Rightarrow> pyval \<Rightarrow> exn + bool" where
  "in_band r p = (case numeric p of
                    None \<Rightarrow> Inl TypeError
                  | Some n \<Rightarrow> Inr (start r < n \<and> n \<le> stop r))"

section \<open>The message bus as the service sees it\<close>

text \<open>
  The matching functions of \<open>IntentService.handle_utterance\<close>, in the names of the source:
  \<open>converse.converse_with_skills\<close>, \<open>padatious_matcher.match_high\<close>,
  \<open>adapt_service.match_intent\<close>, \<open>common_qa.match\<close>, \<open>fallback.high_prio\<close>,
  \<open>padatious_matcher.match_medium\<close>, \<open>fallback.medium_prio\<close>,
  \<open>padatious_matcher.match_low\<close>, \<open>fallback.low_prio\<close>.
\<close>

datatype stage =
  Converse_with_skills | Match_high | Match_intent | Common_qa_match | High_prio
| Match_medium | Medium_prio | Match_low | Low_prio

text \<open>\<open>IntentMatch\<close>, the named tuple of \<open>ovos_core.intent_services\<close>.\<close>

record IntentMatch =
  intent_service :: string
  intent_type :: "string option"
  intent_data :: "(string, pyval) dict"
  skill_id :: "string option"

text \<open>
  The messages the two services put on the bus: the discovery ping, the request to one
  fallback skill (\<open>ovos.skills.fallback.<skill_id>.request\<close>), the request of the old
  protocol (\<open>mycroft.skills.fallback\<close>, with the bounds of the band), the reply that
  launches a matched intent (\<open>message.reply(match.intent_type, data)\<close>) and
  \<open>message.forward('complete_intent_failure')\<close>.
\<close>

datatype bus_msg =
  Fallback_ping "string list" string
| Fallback_request skill_id "string list" string string
| Legacy_fallback string string "int \<times> int"
| Intent_reply string "string list" "(string, pyval) dict"
| Complete_intent_failure

text \<open>
  The state the calls change: the callbacks subscribed on the bus (one entry per callback,
  named by its event), the messages emitted so far, the skills activated through
  \<open>converse.activate_skill\<close>, the calls of \<open>play_error_sound\<close>, and, for the router, the
  matching functions called so far, each with what it returned or raised.
\<close>

type_synonym outcome = "exn + IntentMatch option"

record world =
  listeners :: "string list"
  sent :: "bus_msg list"
  activated :: "skill_id list"
  error_sounds :: nat
  calls :: "(stage \<times> outcome) list"

definition bus_on :: "string \<Rightarrow> world \<Rightarrow> world" where
  "bus_on event w = w\<lparr>listeners := event # listeners w\<rparr>"

definition bus_remove :: "string \<Rightarrow> world \<Rightarrow> world" where
  "bus_remove event w = w\<lparr>listeners := remove1 event (listeners w)\<rparr>"

definition bus_emit :: "bus_msg \<Rightarrow> world \<Rightarrow> world" where
  "bus_emit m w = w\<lparr>sent := sent w @ [m]\<rparr>"

section \<open>Discovery: \_collect\_fallback\_skills\<close>

text \<open>A \<open>ovos.skills.fallback.pong\<close> message: \<open>data["skill_id"]\<close> and \<open>data.get("can_handle")\<close>.\<close>

record pong =
  pong_skill_id :: skill_id
  can_handle :: "pyval option"

text \<open>
  The callback \<open>handle_ack\<close>, on the pair (\<open>skill_ids\<close>, \<open>fallback_skills\<close>) of the
  enclosing call.
\<close>

definition handle_ack ::
  "registry \<Rightarrow> pong \<Rightarrow> skill_id list \<times> skill_id list \<Rightarrow> skill_id list \<times> skill_id list" where
  "handle_ack reg msg acc =
     (case acc of (skill_ids, fallback_skills) \<Rightarrow>
        (let sid = pong_skill_id msg
         in if truthy (case can_handle msg of None \<Rightarrow> PyBool True | Some v \<Rightarrow> v)
            then (skill_ids @ [sid],
                  if sid \<in> set (dict_keys reg) then fallback_skills @ [sid] else fallback_skills)
            else (skill_ids @ [sid], fallback_skills)))"

text \<open>
  The polling loop. Its clock is the list of batches: each batch holds the pongs the bus
  delivered before one evaluation of the loop condition, and the list ends when
  \<open>time.time() - start <= 0.5\<close> fails. The loop leaves as soon as every registered skill
  is in \<open>skill_ids\<close>.
\<close>

fun wait_for_acks ::
  "registry \<Rightarrow> skill_id list \<times> skill_id list \<Rightarrow> pong list list \<Rightarrow> skill_id list \<times> skill_id list" where
  "wait_for_acks reg acc [] = acc"
| "wait_for_acks reg acc (batch # later) =
     (let acc' = fold (handle_ack reg) batch acc
      in if (\<forall>s \<in> set (dict_keys reg). s \<in> set (fst acc')) then acc'
         else wait_for_acks reg acc' later)"

text \<open>The list comprehension \<open>in_range\<close>; the comparison is made for every registered skill.\<close>

fun in_range :: "FallbackRange \<Rightarrow> registry \<Rightarrow> exn + skill_id list" where
  "in_range r [] = Inr []"
| "in_range r ((s, p) # items) =
     (case in_band r p of
        Inl e \<Rightarrow> Inl e
      | Inr b \<Rightarrow> (case in_range r items of
                   Inl e \<Rightarrow> Inl e
                 | Inr ids \<Rightarrow> Inr (if b then s # ids else ids)))"

text \<open>
  What the bus does during one call of \<open>_collect_fallback_skills\<close>: an exception raised
  by a statement between \<open>bus.on\<close> and \<open>bus.remove\<close> (the emit of the ping), if any, and
  the pongs that arrive.
\<close>

record discovery_round =
  emit_raises :: "exn option"
  pong_batches :: "pong list list"

definition pong_event :: string where
  "pong_event = ''ovos.skills.fallback.pong''"

definition collect_fallback_skills ::
  "registry \<Rightarrow> string list \<Rightarrow> string \<Rightarrow> FallbackRange \<Rightarrow> discovery_round \<Rightarrow> world
   \<Rightarrow> (exn + skill_id list) \<times> world" where
  "collect_fallback_skills reg utterances lang r d w =
     (case in_range r reg of
        Inl e \<Rightarrow> (Inl e, w)
      | Inr in_rng \<Rightarrow>
          (let skill_ids = filter (\<lambda>s. s \<notin> set in_rng) (dict_keys reg);
               w1 = bus_on pong_event w
           in case emit_raises d of
                Some e \<Rightarrow> (Inl e, w1)
              | None \<Rightarrow>
                  (let w2 = bus_emit (Fallback_ping utterances lang) w1;
                       acc = wait_for_acks reg (skill_ids, []) (pong_batches d);
                       w3 = bus_remove pong_event w2
                   in (Inr (snd acc), w3))))"

section \<open>Attempting the handlers: attempt\_fallback and \_fallback\_range\<close>

definition fallback_allowed :: "fallback_config \<Rightarrow> skill_id \<Rightarrow> bool" where
  "fallback_allowed cfg sid =
     (let opmode = fallback_mode cfg
      in if opmode = BLACKLIST \<and> sid \<in> set (fallback_blacklist cfg) then False
         else if opmode = WHITELIST \<and> sid \<notin> set (fallback_whitelist cfg) then False
         else True)"

text \<open>
  What the skills do during one call of \<open>_fallback_range\<close>: the discovery round of each
  evaluation of the comprehension's condition (numbered from 0), the answer
  \<open>bus.wait_for_response\<close> returns for the request to a skill (\<open>None\<close> when the wait times
  out, otherwise the \<open>data\<close> of the response), and the answer to the old-style request.
\<close>

record band_env =
  discovery :: "nat \<Rightarrow> discovery_round"
  response :: "skill_id \<Rightarrow> (string, pyval) dict option"
  legacy_response :: "(string, pyval) dict option"

definition attempt_fallback ::
  "fallback_config \<Rightarrow> band_env \<Rightarrow> string list \<Rightarrow> skill_id \<Rightarrow> string \<Rightarrow> world
   \<Rightarrow> (exn + pyval) \<times> world" where
  "attempt_fallback cfg env utterances sid lang w =
     (if fallback_allowed cfg sid
      then (case utterances of
              [] \<Rightarrow> (Inl IndexError, w)
            | u # _ \<Rightarrow>
                (let w' = bus_emit (Fallback_request sid utterances u lang) w
                 in case response env sid of
                      None \<Rightarrow> (Inr (PyBool False), w')
                    | Some data \<Rightarrow>
                        if ''error'' \<in> set (dict_keys data) then (Inr (PyBool False), w')
                        else (Inr (case dict_get data ''result'' of
                                     None \<Rightarrow> PyBool False
                                   | Some v \<Rightarrow> v), w')))
      else (Inr (PyBool False), w))"

definition fallback_match :: IntentMatch where
  "fallback_match =
     \<lparr>intent_service = ''Fallback'', intent_type = None, intent_data = [], skill_id = None\<rparr>"

text \<open>
  The comprehension \<open>fallbacks\<close>: \<open>_collect_fallback_skills\<close> is called in its condition,
  once for every item of the registry.
\<close>

fun fallbacks ::
  "registry \<Rightarrow> string list \<Rightarrow> string \<Rightarrow> FallbackRange \<Rightarrow> (nat \<Rightarrow> discovery_round) \<Rightarrow> nat
   \<Rightarrow> (skill_id \<times> pyval) list \<Rightarrow> world \<Rightarrow> (exn + (skill_id \<times> pyval) list) \<times> world" where
  "fallbacks reg utterances lang r disc i [] w = (Inr [], w)"
| "fallbacks reg utterances lang r disc i ((k, v) # items) w =
     (case collect_fallback_skills reg utterances lang r (disc i) w of
        (Inl e, w') \<Rightarrow> (Inl e, w')
      | (Inr willing, w') \<Rightarrow>
          (case fallbacks reg utterances lang r disc (Suc i) items w' of
             (Inl e, w'') \<Rightarrow> (Inl e, w'')
           | (Inr rest, w'') \<Rightarrow> (Inr (if k \<in> set willing then (k, v) # rest else rest), w'')))"

text \<open>
  The sort key \<open>operator.itemgetter(1)\<close>. Every priority that reaches the sort has gone
  through the comparison of \<open>in_range\<close>, so it is an integer or a boolean.
\<close>

definition priority_key :: "pyval \<Rightarrow> int" where
  "priority_key p = (case numeric p of Some n \<Rightarrow> n | None \<Rightarrow> 0)"

definition sorted_handlers :: "(skill_id \<times> pyval) list \<Rightarrow> (skill_id \<times> pyval) list" where
  "sorted_handlers fbs = sort_key (\<lambda>kv. priority_key (snd kv)) fbs"

text \<open>The loop over \<open>sorted_handlers\<close>; the result says whether the loop returned a match.\<close>

fun attempt_handlers ::
  "fallback_config \<Rightarrow> band_env \<Rightarrow> string list \<Rightarrow> string \<Rightarrow> (skill_id \<times> pyval) list \<Rightarrow> world
   \<Rightarrow> (exn + bool) \<times> world" where
  "attempt_handlers cfg env utterances lang [] w = (Inr False, w)"
| "attempt_handlers cfg env utterances lang ((sid, prio) # later) w =
     (case attempt_fallback cfg env utterances sid lang w of
        (Inl e, w') \<Rightarrow> (Inl e, w')
      | (Inr result, w') \<Rightarrow>
          if truthy result then (Inr True, w')
          else attempt_handlers cfg env utterances lang later w')"

text \<open>
  \<open>_fallback_range\<close>. The utterances are a flat list of strings, on which \<open>flatten_list\<close>
  changes nothing.
\<close>

definition fallback_range ::
  "fallback_config \<Rightarrow> registry \<Rightarrow> band_env \<Rightarrow> string list \<Rightarrow> string \<Rightarrow> FallbackRange \<Rightarrow> world
   \<Rightarrow> (exn + IntentMatch option) \<times> world" where
  "fallback_range cfg reg env utterances lang r w =
     (case fallbacks reg utterances lang r (discovery env) 0 reg w of
        (Inl e, w1) \<Rightarrow> (Inl e, w1)
      | (Inr fbs, w1) \<Rightarrow>
          (case attempt_handlers cfg env utterances lang (sorted_handlers fbs) w1 of
             (Inl e, w2) \<Rightarrow> (Inl e, w2)
           | (Inr True, w2) \<Rightarrow> (Inr (Some fallback_match), w2)
           | (Inr False, w2) \<Rightarrow>
               (case utterances of
                  [] \<Rightarrow> (Inl IndexError, w2)
                | u # _ \<Rightarrow>
                    (let w3 = bus_emit (Legacy_fallback u lang (start r, stop r)) w2
                     in case legacy_response env of
                          None \<Rightarrow> (Inr None, w3)
                        | Some data \<Rightarrow>
                            (case dict_get data ''handled'' of
                               None \<Rightarrow> (Inl KeyError, w3)
                             | Some v \<Rightarrow>
                                 if truthy v then (Inr (Some fallback_match), w3)
                                 else (Inr None, w3))))))"

definition high_prio ::
  "fallback_config \<Rightarrow> registry \<Rightarrow> band_env \<Rightarrow> string list \<Rightarrow> string \<Rightarrow> world
   \<Rightarrow> (exn + IntentMatch option) \<times> world" where
  "high_prio cfg reg env utterances lang w =
     fallback_range cfg reg env utterances lang \<lparr>start = 0, stop = 5\<rparr> w"

definition medium_prio ::
  "fallback_config \<Rightarrow> registry \<Rightarrow> band_env \<Rightarrow> string list \<Rightarrow> string \<Rightarrow> world
   \<Rightarrow> (exn + IntentMatch option) \<times> world" where
  "medium_prio cfg reg env utterances lang w =
     fallback_range cfg reg env utterances lang \<lparr>start = 5, stop = 90\<rparr> w"

definition low_prio ::
  "fallback_config \<Rightarrow> registry \<Rightarrow> band_env \<Rightarrow> string list \<Rightarrow> string \<Rightarrow> world
   \<Rightarrow> (exn + IntentMatch option) \<times> world" where
  "low_prio cfg reg env utterances lang w =
     fallback_range cfg reg env utterances lang \<lparr>start = 90, stop = 101\<rparr> w"

section \<open>The router: disambiguate\_lang and handle\_utterance\<close>

text \<open>
  \<open>Configuration()\<close> is a dictionary of JSON values. The key of the second lookup is
  written as in the source, with the quote character inside the string.
\<close>

definition secondary_langs_key :: string where
  "secondary_langs_key = ''secondary_langs'' @ [CHR 0x27]"

fun is_list :: "pyval \<Rightarrow> bool" where
  "is_list (PyList xs) = True"
| "is_list v = False"

text \<open>The loop over \<open>lang_keys\<close>: \<open>k in message.context\<close>, then \<open>v in valid_langs\<close>.\<close>

fun lang_loop :: "pyval list \<Rightarrow> string \<Rightarrow> (string, string) dict \<Rightarrow> string list \<Rightarrow> string" where
  "lang_loop valid_langs default_lang ctx [] = default_lang"
| "lang_loop valid_langs default_lang ctx (k # ks) =
     (case dict_get ctx k of
        None \<Rightarrow> lang_loop valid_langs default_lang ctx ks
      | Some v \<Rightarrow>
          if PyStr v \<in> set valid_langs then v
          else lang_loop valid_langs default_lang ctx ks)"

definition lang_keys :: "string list" where
  "lang_keys = [''stt_lang'', ''request_lang'', ''detected_lang'']"

text \<open>
  \<open>disambiguate_lang\<close>; \<open>default_lang\<close> is the value of \<open>get_message_lang(message)\<close>. Adding
  a value that is not a list to a list raises \<open>TypeError\<close>, and so does building a set
  with a list as element.
\<close>

definition disambiguate_lang ::
  "(string, pyval) dict \<Rightarrow> string \<Rightarrow> (string, string) dict \<Rightarrow> exn + string" where
  "disambiguate_lang cfg default_lang ctx =
     (case (case dict_get cfg secondary_langs_key of None \<Rightarrow> PyList [] | Some v \<Rightarrow> v) of
        PyList secondary \<Rightarrow>
          (let valid_langs =
                 (case dict_get cfg ''lang'' of None \<Rightarrow> PyStr ''en-us'' | Some v \<Rightarrow> v) # secondary
           in if (\<exists>v \<in> set valid_langs. is_list v) then Inl TypeError
              else Inr (lang_loop valid_langs default_lang ctx lang_keys))
      | PyNone \<Rightarrow> Inl TypeError
      | PyBool b \<Rightarrow> Inl TypeError
      | PyInt n \<Rightarrow> Inl TypeError
      | PyStr s \<Rightarrow> Inl TypeError)"

text \<open>
  The message of an utterance: \<open>message.data.get('utterances', [])\<close> and
  \<open>message.context\<close>.
\<close>

record message =
  utterances :: "string list"
  msg_context :: "(string, string) dict"

text \<open>
  What lies outside the two services during one call of \<open>handle_utterance\<close>: the
  transformer plugins (\<open>_handle_transformers\<close>), \<open>get_message_lang\<close>, the six matching
  functions that are not fallbacks (each returns a match or \<open>None\<close>, or raises), and the
  behaviour of the fallback skills during each of the three bands.
\<close>

record router_env =
  transformers :: "message \<Rightarrow> exn + message"
  get_message_lang :: "message \<Rightarrow> string"
  matcher :: "stage \<Rightarrow> string list \<Rightarrow> string \<Rightarrow> exn + IntentMatch option"
  skills :: "stage \<Rightarrow> band_env"

definition match_funcs :: "stage list" where
  "match_funcs =
     [Converse_with_skills, Match_high, Match_intent, Common_qa_match, High_prio,
      Match_medium, Medium_prio, Match_low, Low_prio]"

text \<open>\<open>match_func(utterances, lang, message)\<close> for each entry of \<open>match_funcs\<close>.\<close>

fun match_func ::
  "fallback_config \<Rightarrow> registry \<Rightarrow> router_env \<Rightarrow> stage \<Rightarrow> string list \<Rightarrow> string \<Rightarrow> world
   \<Rightarrow> (exn + IntentMatch option) \<times> world" where
  "match_func cfg reg env High_prio us lang w = high_prio cfg reg (skills env High_prio) us lang w"
| "match_func cfg reg env Medium_prio us lang w =
     medium_prio cfg reg (skills env Medium_prio) us lang w"
| "match_func cfg reg env Low_prio us lang w = low_prio cfg reg (skills env Low_prio) us lang w"
| "match_func cfg reg env f us lang w = (matcher env f us lang, w)"

text \<open>
  The loop over \<open>match_funcs\<close>. An \<open>IntentMatch\<close> is a tuple of four fields, so it is always
  true: the loop breaks exactly when a function returns a match. Each call is recorded
  in \<open>calls\<close> when it comes back.
\<close>

fun match_loop ::
  "fallback_config \<Rightarrow> registry \<Rightarrow> router_env \<Rightarrow> string list \<Rightarrow> string \<Rightarrow> stage list \<Rightarrow> world
   \<Rightarrow> outcome \<times> world" where
  "match_loop cfg reg env us lang [] w = (Inr None, w)"
| "match_loop cfg reg env us lang (f # fs) w =
     (case match_func cfg reg env f us lang w of
        (Inl e, w') \<Rightarrow> (Inl e, w'\<lparr>calls := calls w' @ [(f, Inl e)]\<rparr>)
      | (Inr (Some m), w') \<Rightarrow> (Inr (Some m), w'\<lparr>calls := calls w' @ [(f, Inr (Some m))]\<rparr>)
      | (Inr None, w') \<Rightarrow>
          match_loop cfg reg env us lang fs (w'\<lparr>calls := calls w' @ [(f, Inr None)]\<rparr>))"

definition send_complete_intent_failure :: "world \<Rightarrow> world" where
  "send_complete_intent_failure w =
     bus_emit Complete_intent_failure (w\<lparr>error_sounds := Suc (error_sounds w)\<rparr>)"

text \<open>The branch \<open>if match:\<close> of \<open>handle_utterance\<close>; an empty string is false.\<close>

definition launch :: "message \<Rightarrow> IntentMatch \<Rightarrow> world \<Rightarrow> world" where
  "launch msg m w =
     (let w1 = (case skill_id m of
                  Some sid \<Rightarrow> if sid \<noteq> [] then w\<lparr>activated := activated w @ [sid]\<rparr> else w
                | None \<Rightarrow> w)
      in case intent_type m of
           Some t \<Rightarrow> if t \<noteq> [] then bus_emit (Intent_reply t (utterances msg) (intent_data m)) w1
                     else w1
         | None \<Rightarrow> w1)"

text \<open>
  \<open>handle_utterance\<close> returns the tuple \<open>(match, message.context, stopwatch)\<close>, or nothing
  after it has logged an exception.
\<close>

datatype routed = Logged exn | Returned "IntentMatch option" "(string, string) dict"

definition handle_utterance ::
  "(string, pyval) dict \<Rightarrow> fallback_config \<Rightarrow> registry \<Rightarrow> router_env \<Rightarrow> message \<Rightarrow> world
   \<Rightarrow> routed \<times> world" where
  "handle_utterance cfg fcfg reg env msg0 w =
     (case transformers env msg0 of
        Inl e \<Rightarrow> (Logged e, w)
      | Inr msg \<Rightarrow>
          (case disambiguate_lang cfg (get_message_lang env msg) (msg_context msg) of
             Inl e \<Rightarrow> (Logged e, w)
           | Inr lang \<Rightarrow>
               (case match_loop fcfg reg env (utterances msg) lang match_funcs w of
                  (Inl e, w') \<Rightarrow> (Logged e, w')
                | (Inr (Some m), w') \<Rightarrow> (Returned (Some m) (msg_context msg), launch msg m w')
                | (Inr None, w') \<Rightarrow>
                    (Returned None (msg_context msg), send_complete_intent_failure w'))))"

section \<open>Observing a call\<close>

text \<open>
  The messages a call emitted, between the state \<open>w\<close> it started in and the state \<open>w'\<close>
  it left, the skills that were sent a request of their own among them, and the matching
  functions the router called.
\<close>

definition emitted :: "world \<Rightarrow> world \<Rightarrow> bus_msg list" where
  "emitted w w' = drop (length (sent w)) (sent w')"

fun request_target :: "bus_msg \<Rightarrow> skill_id option" where
  "request_target (Fallback_request sid us u lang) = Some sid"
| "request_target m = None"

definition requested :: "bus_msg list \<Rightarrow> skill_id list" where
  "requested ms = List.map_filter request_target ms"

definition called :: "world \<Rightarrow> world \<Rightarrow> (stage \<times> outcome) list" where
  "called w w' = drop (length (calls w)) (calls w')"

text \<open>
  A reply that is a decline, in the words of the specification: no reply in time, a
  reply with an \<open>error\<close> field, or a reply whose \<open>result\<close> flag is absent or false.
\<close>

definition declines :: "(string, pyval) dict option \<Rightarrow> bool" where
  "declines reply =
     (case reply of
        None \<Rightarrow> True
      | Some data \<Rightarrow>
          ''error'' \<in> set (dict_keys data) \<or>
          (case dict_get data ''result'' of None \<Rightarrow> True | Some v \<Rightarrow> \<not> truthy v))"

text \<open>
  The request \<open>attempt_fallback\<close> sends to a skill, and two relations between the state
  before and the state after a call that the lemmas below use: the call kept the
  router's own records, and the call emitted no \<open>complete_intent_failure\<close>.
\<close>

definition request :: "string list \<Rightarrow> string \<Rightarrow> skill_id \<Rightarrow> bus_msg" where
  "request us lang sid = Fallback_request sid us (hd us) lang"

definition same_router_state :: "world \<Rightarrow> world \<Rightarrow> bool" where
  "same_router_state w w' \<longleftrightarrow>
     calls w' = calls w \<and> activated w' = activated w \<and> error_sounds w' = error_sounds w"

definition quiet :: "world \<Rightarrow> world \<Rightarrow> bool" where
  "quiet w w' \<longleftrightarrow>
     activated w' = activated w \<and> error_sounds w' = error_sounds w
     \<and> (\<exists>ms. sent w' = sent w @ ms \<and> Complete_intent_failure \<notin> set ms)"

section \<open>Registry lemmas\<close>

lemma dict_get_dict_set: "dict_get (dict_set k v d) k' = (if k' = k then Some v else dict_get d k')"
  by (induction d) (auto simp: dict_get_def)

lemma dict_keys_dict_set:
  "dict_keys (dict_set k v d) = (if k \<in> set (dict_keys d) then dict_keys d else dict_keys d @ [k])"
  by (induction d) (force simp: dict_keys_def)+

lemma distinct_dict_set: "distinct (dict_keys d) \<Longrightarrow> distinct (dict_keys (dict_set k v d))"
  by (simp add: dict_keys_dict_set)

lemma dict_pop_absent: "k \<notin> set (dict_keys d) \<Longrightarrow> dict_pop k d = d"
  by (induction d) (auto simp: dict_pop_def dict_keys_def)

lemma dict_keys_dict_pop: "dict_keys (dict_pop k d) = filter (\<lambda>k'. k' \<noteq> k) (dict_keys d)"
  by (induction d) (auto simp: dict_pop_def dict_keys_def)

lemma dict_get_None_iff: "dict_get d k = None \<longleftrightarrow> k \<notin> set (dict_keys d)"
  by (simp add: dict_get_def dict_keys_def map_of_eq_None_iff)

lemma register_stores:
  "dict_get (handle_register_fallback cfg sid p reg) sid =
     Some (case dict_get (fallback_priorities cfg) sid of
             None \<Rightarrow> py_or p (PyInt 101) | Some forced \<Rightarrow> forced)"
proof (cases "dict_get (fallback_priorities cfg) sid")
  case None
  then have "sid \<notin> set (dict_keys (fallback_priorities cfg))"
    by (simp add: dict_get_None_iff)
  with None show ?thesis
    by (simp add: handle_register_fallback_def Let_def dict_get_dict_set)
next
  case (Some forced)
  then have "sid \<in> set (dict_keys (fallback_priorities cfg))"
    using dict_get_None_iff [of "fallback_priorities cfg" sid] by simp
  with Some show ?thesis
    by (simp add: handle_register_fallback_def Let_def dict_get_dict_set)
qed

lemma register_other:
  "sid' \<noteq> sid \<Longrightarrow> dict_get (handle_register_fallback cfg sid' p reg) sid = dict_get reg sid"
  by (auto simp: handle_register_fallback_def Let_def dict_get_dict_set split: option.splits)

lemma deregister_absent: "sid \<notin> set (dict_keys reg) \<Longrightarrow> handle_deregister_fallback sid reg = reg"
  by (simp add: handle_deregister_fallback_def)

lemma deregister_removes: "sid \<notin> set (dict_keys (handle_deregister_fallback sid reg))"
  by (simp add: handle_deregister_fallback_def dict_keys_dict_pop)

text \<open>The keys of the registry stay distinct, as those of a dictionary are.\<close>

lemma register_keeps_distinct:
  "distinct (dict_keys reg) \<Longrightarrow> distinct (dict_keys (handle_register_fallback cfg sid p reg))"
  by (simp add: handle_register_fallback_def Let_def distinct_dict_set split: option.splits)

lemma deregister_keeps_distinct:
  "distinct (dict_keys reg) \<Longrightarrow> distinct (dict_keys (handle_deregister_fallback sid reg))"
  by (simp add: handle_deregister_fallback_def dict_keys_dict_pop)

section \<open>Pairs in a subsequence\<close>







section \<open>What one call of the fallback service does\<close>

lemma same_router_state_refl [simp]: "same_router_state w w"
  by (simp add: same_router_state_def)

lemma same_router_state_trans:
  "same_router_state w w1 \<Longrightarrow> same_router_state w1 w2 \<Longrightarrow> same_router_state w w2"
  by (simp add: same_router_state_def)

lemma collect_fallback_skills_effect:
  assumes "collect_fallback_skills reg us lang r d w = (res, w')"
  shows "same_router_state w w'"
    and "\<exists>n. sent w' = sent w @ replicate n (Fallback_ping us lang)"
    and "\<And>ids. res = Inr ids \<Longrightarrow> listeners w' = listeners w"
  using assms
  by (auto simp: collect_fallback_skills_def Let_def bus_on_def bus_emit_def bus_remove_def
        same_router_state_def split: sum.splits option.splits
        intro: exI [of _ 0] exI [of _ "Suc 0"])

lemma fallbacks_effect:
  assumes "fallbacks reg us lang r disc i items w = (res, w')"
  shows "same_router_state w w' \<and> (\<exists>n. sent w' = sent w @ replicate n (Fallback_ping us lang))
         \<and> (\<forall>fbs. res = Inr fbs \<longrightarrow> listeners w' = listeners w \<and> subseq fbs items)"
  using assms
proof (induction items arbitrary: i w res w')
  case Nil
  then show ?case by auto
next
  case (Cons kv items)
  obtain k v where kv: "kv = (k, v)" by (cases kv)
  obtain r1 w1 where c: "collect_fallback_skills reg us lang r (disc i) w = (r1, w1)"
    by (cases "collect_fallback_skills reg us lang r (disc i) w")
  note e1 = collect_fallback_skills_effect [OF c]
  from e1(2) obtain n1 where n1: "sent w1 = sent w @ replicate n1 (Fallback_ping us lang)" ..
  show ?case
  proof (cases r1)
    case (Inl e)
    with Cons.prems kv c have "res = Inl e" "w' = w1" by auto
    with e1(1) n1 show ?thesis by auto
  next
    case (Inr willing)
    obtain r2 w2 where f: "fallbacks reg us lang r disc (Suc i) items w1 = (r2, w2)"
      by (cases "fallbacks reg us lang r disc (Suc i) items w1")
    note ih = Cons.IH [OF f]
    from ih obtain n2 where n2: "sent w2 = sent w1 @ replicate n2 (Fallback_ping us lang)" by blast
    have w': "w' = w2" using Cons.prems kv c Inr f by (auto split: sum.splits)
    have s: "sent w2 = sent w @ replicate (n1 + n2) (Fallback_ping us lang)"
      using n1 n2 by (simp add: replicate_add)
    have st: "same_router_state w w2"
      using e1(1) ih same_router_state_trans by blast
    have l1: "listeners w1 = listeners w" using e1(3) Inr by simp
    have "\<forall>fbs. res = Inr fbs \<longrightarrow> listeners w2 = listeners w \<and> subseq fbs (kv # items)"
    proof (intro allI impI)
      fix fbs assume res: "res = Inr fbs"
      then obtain rest where rest: "r2 = Inr rest"
        and fbs: "fbs = (if k \<in> set willing then (k, v) # rest else rest)"
        using Cons.prems kv c Inr f by (auto split: sum.splits)
      from ih rest have "listeners w2 = listeners w1" "subseq rest items" by auto
      then show "listeners w2 = listeners w \<and> subseq fbs (kv # items)"
        using l1 fbs kv by auto
    qed
    with w' s st show ?thesis by blast
  qed
qed

lemma attempt_fallback_effect:
  assumes "attempt_fallback cfg env us sid lang w = (res, w')"
  shows "same_router_state w w'" and "listeners w' = listeners w"
    and "\<And>e. res = Inl e \<Longrightarrow> us = [] \<and> sent w' = sent w"
    and "\<And>v. res = Inr v \<Longrightarrow> truthy v \<Longrightarrow>
           fallback_allowed cfg sid \<and> \<not> declines (response env sid)
           \<and> sent w' = sent w @ [request us lang sid]"
    and "\<And>v. res = Inr v \<Longrightarrow> \<not> truthy v \<Longrightarrow>
           (if fallback_allowed cfg sid
            then declines (response env sid) \<and> sent w' = sent w @ [request us lang sid]
            else sent w' = sent w)"
  using assms
  by (auto simp: attempt_fallback_def Let_def bus_emit_def same_router_state_def declines_def
        request_def split: if_splits list.splits option.splits)

lemma attempt_handlers_effect:
  assumes "attempt_handlers cfg env us lang hs w = (res, w')"
  shows "same_router_state w w' \<and> listeners w' = listeners w
         \<and> (\<exists>tried rest. hs = tried @ rest
               \<and> sent w' = sent w @ map (request us lang)
                                     (filter (fallback_allowed cfg) (map fst tried))
               \<and> (res = Inr False \<longrightarrow> rest = [])
               \<and> (\<forall>e. res = Inl e \<longrightarrow> us = [])
               \<and> (res = Inr True \<longrightarrow> tried \<noteq> [] \<and> fallback_allowed cfg (fst (last tried))
                     \<and> \<not> declines (response env (fst (last tried))))
               \<and> (\<forall>h \<in> set (if res = Inr True then butlast tried else tried).
                     fallback_allowed cfg (fst h) \<longrightarrow> declines (response env (fst h))))"
  using assms
proof (induction hs arbitrary: w res w')
  case Nil
  then show ?case by auto
next
  case (Cons h later)
  obtain sid p where h: "h = (sid, p)" by (cases h)
  obtain r1 w1 where a: "attempt_fallback cfg env us sid lang w = (r1, w1)"
    by (cases "attempt_fallback cfg env us sid lang w")
  note e = attempt_fallback_effect [OF a]
  show ?case
  proof (cases r1)
    case (Inl ex)
    with Cons.prems h a have rw: "res = Inl ex" "w' = w1" by auto
    from e(3) [OF Inl] have "us = []" "sent w1 = sent w" by auto
    with rw e(1,2) show ?thesis
      by (intro conjI exI [of _ "[]"] exI [of _ "h # later"]) auto
  next
    case (Inr v)
    show ?thesis
    proof (cases "truthy v")
      case True
      with Cons.prems h a Inr have rw: "res = Inr True" "w' = w1" by auto
      from e(4) [OF Inr True] rw e(1,2) h show ?thesis
        by (intro conjI exI [of _ "[h]"] exI [of _ "later"]) auto
    next
      case False
      with Cons.prems h a Inr have rec: "attempt_handlers cfg env us lang later w1 = (res, w')"
        by auto
      from Cons.IH [OF rec] obtain tried rest where ih:
        "same_router_state w1 w'" "listeners w' = listeners w1" "later = tried @ rest"
        "sent w' = sent w1 @ map (request us lang) (filter (fallback_allowed cfg) (map fst tried))"
        "res = Inr False \<longrightarrow> rest = []" "\<forall>e. res = Inl e \<longrightarrow> us = []"
        "res = Inr True \<longrightarrow> tried \<noteq> [] \<and> fallback_allowed cfg (fst (last tried))
                     \<and> \<not> declines (response env (fst (last tried)))"
        "\<forall>h \<in> set (if res = Inr True then butlast tried else tried).
                     fallback_allowed cfg (fst h) \<longrightarrow> declines (response env (fst h))"
        by blast
      note f = e(5) [OF Inr False]
      have s: "sent w' = sent w @ map (request us lang)
                 (filter (fallback_allowed cfg) (map fst (h # tried)))"
        using f ih(4) h by (auto split: if_splits)
      have d: "\<forall>x \<in> set (if res = Inr True then butlast (h # tried) else h # tried).
                     fallback_allowed cfg (fst x) \<longrightarrow> declines (response env (fst x))"
        using f ih(7,8) h by (auto split: if_splits)
      have l: "res = Inr True \<longrightarrow> h # tried \<noteq> [] \<and> fallback_allowed cfg (fst (last (h # tried)))
                     \<and> \<not> declines (response env (fst (last (h # tried))))"
        using ih(7) by auto
      have "same_router_state w w'" "listeners w' = listeners w"
        using e(1,2) ih(1,2) same_router_state_trans by auto
      moreover have "h # later = (h # tried) @ rest" using ih(3) by simp
      ultimately show ?thesis using s d l ih(5,6) by blast
    qed
  qed
qed

lemma requested_append [simp]: "requested (xs @ ys) = requested xs @ requested ys"
  by (simp add: requested_def List.map_filter_def)

lemma requested_Nil [simp]: "requested [] = []"
  by (simp add: requested_def List.map_filter_def)

lemma requested_pings [simp]: "requested (replicate n (Fallback_ping us lang)) = []"
  by (induction n) (simp_all add: requested_def List.map_filter_def)

lemma requested_requests [simp]: "requested (map (request us lang) sids) = sids"
  by (induction sids) (simp_all add: requested_def List.map_filter_def request_def)

lemma requested_legacy [simp]: "requested [Legacy_fallback u lang b] = []"
  by (simp add: requested_def List.map_filter_def)

lemma emitted_append: "sent w' = sent w @ ms \<Longrightarrow> emitted w w' = ms"
  by (simp add: emitted_def)

lemma fallback_range_run:
  assumes run: "fallback_range cfg reg env us lang r w = (res, w')"
  obtains (discovery_raised) e where
      "fallbacks reg us lang r (discovery env) 0 reg w = (Inl e, w')" "res = Inl e"
    | (attempted) fbs w1 lr w2 where
      "fallbacks reg us lang r (discovery env) 0 reg w = (Inr fbs, w1)"
      "attempt_handlers cfg env us lang (sorted_handlers fbs) w1 = (lr, w2)"
      "(\<exists>e. lr = Inl e \<and> res = Inl e \<and> w' = w2)
       \<or> (lr = Inr True \<and> res = Inr (Some fallback_match) \<and> w' = w2)
       \<or> (lr = Inr False \<and> us = [] \<and> res = Inl IndexError \<and> w' = w2)
       \<or> (lr = Inr False \<and> us \<noteq> []
            \<and> w' = bus_emit (Legacy_fallback (hd us) lang (start r, stop r)) w2
            \<and> (res = Inr None \<or> res = Inl KeyError
                 \<or> (res = Inr (Some fallback_match) \<and> legacy_response env \<noteq> None)))"
proof -
  obtain r1 w1 where f: "fallbacks reg us lang r (discovery env) 0 reg w = (r1, w1)"
    by (cases "fallbacks reg us lang r (discovery env) 0 reg w")
  show thesis
  proof (cases r1)
    case (Inl e)
    with run f have "res = Inl e" "w' = w1" by (auto simp: fallback_range_def)
    with f Inl show thesis using discovery_raised by simp
  next
    case (Inr fbs)
    obtain lr w2 where a: "attempt_handlers cfg env us lang (sorted_handlers fbs) w1 = (lr, w2)"
      by (cases "attempt_handlers cfg env us lang (sorted_handlers fbs) w1")
    have "(\<exists>e. lr = Inl e \<and> res = Inl e \<and> w' = w2)
       \<or> (lr = Inr True \<and> res = Inr (Some fallback_match) \<and> w' = w2)
       \<or> (lr = Inr False \<and> us = [] \<and> res = Inl IndexError \<and> w' = w2)
       \<or> (lr = Inr False \<and> us \<noteq> []
            \<and> w' = bus_emit (Legacy_fallback (hd us) lang (start r, stop r)) w2
            \<and> (res = Inr None \<or> res = Inl KeyError
                 \<or> (res = Inr (Some fallback_match) \<and> legacy_response env \<noteq> None)))"
      using run f Inr a
      by (auto simp: fallback_range_def Let_def
            split: sum.splits bool.splits list.splits option.splits if_splits)
    with f Inr a show thesis using attempted by simp
  qed
qed

text \<open>The messages of one call of \<open>_fallback_range\<close>: pings, then requests, then at most
  the old-style request.\<close>

lemma fallback_range_effect:
  assumes run: "fallback_range cfg reg env us lang r w = (res, w')"
  shows "same_router_state w w'"
    and "\<exists>n fbs w1 tried rest legacy.
           emitted w w' = replicate n (Fallback_ping us lang)
                          @ map (request us lang) (filter (fallback_allowed cfg) (map fst tried))
                          @ legacy
           \<and> (legacy = [] \<or> legacy = [Legacy_fallback (hd us) lang (start r, stop r)])
           \<and> (fallbacks reg us lang r (discovery env) 0 reg w = (Inr fbs, w1)
                \<and> sorted_handlers fbs = tried @ rest
              \<or> tried = [] \<and> (\<exists>e. res = Inl e))
           \<and> (if \<exists>h \<in> set tried. fallback_allowed cfg (fst h) \<and> \<not> declines (response env (fst h))
               then res = Inr (Some fallback_match) \<and> legacy = []
                    \<and> fallback_allowed cfg (fst (last tried))
                    \<and> \<not> declines (response env (fst (last tried)))
                    \<and> (\<forall>h \<in> set (butlast tried).
                          fallback_allowed cfg (fst h) \<longrightarrow> declines (response env (fst h)))
               else (\<forall>m. res = Inr m \<longrightarrow>
                       rest = [] \<and> legacy \<noteq> [] \<and> (m = None \<or> m = Some fallback_match)))"
proof -
  from run show "same_router_state w w'"
  proof (cases rule: fallback_range_run)
    case (discovery_raised e)
    then show ?thesis using fallbacks_effect by blast
  next
    case (attempted fbs w1 lr w2)
    have "same_router_state w w1" using fallbacks_effect [OF attempted(1)] by blast
    moreover have "same_router_state w1 w2" using attempt_handlers_effect [OF attempted(2)] by blast
    moreover have "same_router_state w2 w'"
      using attempted(3) by (auto simp: same_router_state_def bus_emit_def)
    ultimately show ?thesis using same_router_state_trans by blast
  qed
next
  let ?P = "\<lambda>n fbs w1 tried rest legacy.
           emitted w w' = replicate n (Fallback_ping us lang)
                          @ map (request us lang) (filter (fallback_allowed cfg) (map fst tried))
                          @ legacy
           \<and> (legacy = [] \<or> legacy = [Legacy_fallback (hd us) lang (start r, stop r)])
           \<and> (fallbacks reg us lang r (discovery env) 0 reg w = (Inr fbs, w1)
                \<and> sorted_handlers fbs = tried @ rest
              \<or> tried = [] \<and> (\<exists>e. res = Inl e))
           \<and> (if \<exists>h \<in> set tried. fallback_allowed cfg (fst h) \<and> \<not> declines (response env (fst h))
               then res = Inr (Some fallback_match) \<and> legacy = []
                    \<and> fallback_allowed cfg (fst (last tried))
                    \<and> \<not> declines (response env (fst (last tried)))
                    \<and> (\<forall>h \<in> set (butlast tried).
                          fallback_allowed cfg (fst h) \<longrightarrow> declines (response env (fst h)))
               else (\<forall>m. res = Inr m \<longrightarrow>
                       rest = [] \<and> legacy \<noteq> [] \<and> (m = None \<or> m = Some fallback_match)))"
  from run show "\<exists>n fbs w1 tried rest legacy. ?P n fbs w1 tried rest legacy"
  proof (cases rule: fallback_range_run)
    case (discovery_raised e)
    from fallbacks_effect [OF discovery_raised(1)] obtain n where
      "sent w' = sent w @ replicate n (Fallback_ping us lang)" by blast
    then have "emitted w w' = replicate n (Fallback_ping us lang)" by (rule emitted_append)
    with discovery_raised(2) have "?P n [] w [] [] []" by simp
    then show ?thesis by blast
  next
    case (attempted fbs w1 lr w2)
    from fallbacks_effect [OF attempted(1)] obtain n where
      n: "sent w1 = sent w @ replicate n (Fallback_ping us lang)" by blast
    from attempt_handlers_effect [OF attempted(2)] obtain tried rest where t:
      "sorted_handlers fbs = tried @ rest"
      "sent w2 = sent w1 @ map (request us lang) (filter (fallback_allowed cfg) (map fst tried))"
      "lr = Inr False \<longrightarrow> rest = []" "\<forall>e. lr = Inl e \<longrightarrow> us = []"
      "lr = Inr True \<longrightarrow> tried \<noteq> [] \<and> fallback_allowed cfg (fst (last tried))
                     \<and> \<not> declines (response env (fst (last tried)))"
      "\<forall>h \<in> set (if lr = Inr True then butlast tried else tried).
                     fallback_allowed cfg (fst h) \<longrightarrow> declines (response env (fst h))"
      by blast
    define legacy where "legacy = drop (length (sent w2)) (sent w')"
    have leg: "sent w' = sent w2 @ legacy
               \<and> (legacy = [] \<or> legacy = [Legacy_fallback (hd us) lang (start r, stop r)])"
      using attempted(3) by (auto simp: legacy_def bus_emit_def)
    have em: "emitted w w' = replicate n (Fallback_ping us lang)
                @ map (request us lang) (filter (fallback_allowed cfg) (map fst tried)) @ legacy"
      using n t(2) leg by (simp add: emitted_def)
    have lastin: "tried \<noteq> [] \<Longrightarrow> last tried \<in> set tried" by simp
    have "?P n fbs w1 tried rest legacy"
    proof (cases "lr = Inr True")
      case True
      then have "res = Inr (Some fallback_match)" "w' = w2" using attempted(3) by auto
      moreover have "legacy = []" using \<open>w' = w2\<close> by (simp add: legacy_def)
      moreover have "\<exists>h \<in> set tried. fallback_allowed cfg (fst h) \<and> \<not> declines (response env (fst h))"
        using t(5) True lastin by blast
      ultimately show ?thesis using em attempted(1) t(1,5,6) True by simp
    next
      case False
      then have none: "\<not> (\<exists>h \<in> set tried. fallback_allowed cfg (fst h)
                          \<and> \<not> declines (response env (fst h)))"
        using t(6) by auto
      have b: "\<forall>m. res = Inr m \<longrightarrow>
                 rest = [] \<and> legacy \<noteq> [] \<and> (m = None \<or> m = Some fallback_match)"
        using attempted(3) False t(3) by (auto simp: legacy_def bus_emit_def)
      show ?thesis unfolding if_not_P [OF none] using em leg attempted(1) t(1) b by simp
    qed
    then show ?thesis by blast
  qed
qed

lemma fallback_range_match:
  assumes run: "fallback_range cfg reg env us lang r w = (res, w')" and "res = Inr (Some m)"
  shows "m = fallback_match"
  using fallback_range_effect(2) [OF run] assms(2) by (auto split: if_splits)

lemma handled_request_is_last:
  assumes run: "fallback_range cfg reg env us lang r w = (res, w')"
    and h: "h \<in> set (requested (emitted w w'))"
    and nd: "\<not> declines (response env h)"
  shows "res = Inr (Some fallback_match) \<and> (\<exists>ms. emitted w w' = ms @ [request us lang h])"
proof -
  from fallback_range_effect(2) [OF run] obtain n fbs w1 tried rest legacy where
    P: "emitted w w' = replicate n (Fallback_ping us lang)
           @ map (request us lang) (filter (fallback_allowed cfg) (map fst tried)) @ legacy
       \<and> (legacy = [] \<or> legacy = [Legacy_fallback (hd us) lang (start r, stop r)])
       \<and> (fallbacks reg us lang r (discovery env) 0 reg w = (Inr fbs, w1)
                \<and> sorted_handlers fbs = tried @ rest
              \<or> tried = [] \<and> (\<exists>e. res = Inl e))
       \<and> (if \<exists>h \<in> set tried. fallback_allowed cfg (fst h) \<and> \<not> declines (response env (fst h))
            then res = Inr (Some fallback_match) \<and> legacy = []
                 \<and> fallback_allowed cfg (fst (last tried))
                 \<and> \<not> declines (response env (fst (last tried)))
                 \<and> (\<forall>h \<in> set (butlast tried).
                       fallback_allowed cfg (fst h) \<longrightarrow> declines (response env (fst h)))
            else (\<forall>m. res = Inr m \<longrightarrow>
                       rest = [] \<and> legacy \<noteq> [] \<and> (m = None \<or> m = Some fallback_match)))"
    by blast
  let ?reqs = "filter (fallback_allowed cfg) (map fst tried)"
  from P have em: "emitted w w' = replicate n (Fallback_ping us lang)
                     @ map (request us lang) ?reqs @ legacy" by blast
  from P have leg: "legacy = [] \<or> legacy = [Legacy_fallback (hd us) lang (start r, stop r)]"
    by blast
  have "requested (emitted w w') = ?reqs" using em leg by auto
  with h have hin: "h \<in> set ?reqs" by simp
  then obtain x where x: "x \<in> set tried" "fst x = h" "fallback_allowed cfg h" by auto
  with nd have ex: "\<exists>h \<in> set tried. fallback_allowed cfg (fst h)
                     \<and> \<not> declines (response env (fst h))" by blast
  from P [unfolded if_P [OF ex]] have c: "res = Inr (Some fallback_match)" "legacy = []"
    "fallback_allowed cfg (fst (last tried))"
    "\<forall>h \<in> set (butlast tried). fallback_allowed cfg (fst h) \<longrightarrow> declines (response env (fst h))"
    by blast+
  from x(1) have ne: "tried \<noteq> []" by auto
  have "x \<notin> set (butlast tried)" using c(4) x nd by blast
  with x(1) ne have "x = last tried"
    by (metis append_butlast_last_id in_set_conv_decomp set_ConsD set_append Un_iff empty_iff empty_set)
  then have "?reqs = filter (fallback_allowed cfg) (map fst (butlast tried)) @ [h]"
    using ne x by (metis (no_types, lifting) append_butlast_last_id filter.simps(1,2) filter_append
        list.simps(8,9) map_append)
  then have "emitted w w' = (replicate n (Fallback_ping us lang)
               @ map (request us lang) (filter (fallback_allowed cfg) (map fst (butlast tried))))
               @ [request us lang h]"
    using em c(2) by simp
  with c(1) show ?thesis by blast
qed

lemma attempt_fallback_decline:
  assumes "declines (response env sid)"
  shows "\<exists>v. fst (attempt_fallback cfg env (u # us) sid lang w) = Inr v \<and> \<not> truthy v"
  using assms
  by (auto simp: attempt_fallback_def declines_def Let_def split: option.splits)

lemma attempt_fallback_no_reply_or_error:
  assumes "response env sid = None
           \<or> (\<exists>data. response env sid = Some data \<and> ''error'' \<in> set (dict_keys data))"
  shows "fst (attempt_fallback cfg env (u # us) sid lang w) = Inr (PyBool False)"
  using assms
  by (auto simp: attempt_fallback_def Let_def split: option.splits)

lemma attempt_handlers_skip_decline:
  assumes "declines (response env sid)"
  shows "attempt_handlers cfg env (u # us) lang ((sid, p) # later) w
         = attempt_handlers cfg env (u # us) lang later
             (snd (attempt_fallback cfg env (u # us) sid lang w))"
proof -
  obtain r1 w1 where a: "attempt_fallback cfg env (u # us) sid lang w = (r1, w1)"
    by (cases "attempt_fallback cfg env (u # us) sid lang w")
  from attempt_fallback_decline [OF assms, of cfg u us lang w] a
  obtain v where "r1 = Inr v" "\<not> truthy v" by auto
  with a show ?thesis by simp
qed

lemma attempt_handlers_reaches:
  assumes run: "attempt_handlers cfg env (u # us) lang hs w = (res, w')"
    and k: "k < length hs" and allowed: "fallback_allowed cfg (fst (hs ! k))"
    and before: "\<forall>i<k. declines (response env (fst (hs ! i)))"
  shows "fst (hs ! k) \<in> set (requested (emitted w w'))"
proof -
  from attempt_handlers_effect [OF run] obtain tried rest where t:
    "hs = tried @ rest"
    "sent w' = sent w @ map (request (u # us) lang) (filter (fallback_allowed cfg) (map fst tried))"
    "res = Inr False \<longrightarrow> rest = []" "\<forall>e. res = Inl e \<longrightarrow> u # us = []"
    "res = Inr True \<longrightarrow> tried \<noteq> [] \<and> fallback_allowed cfg (fst (last tried))
                     \<and> \<not> declines (response env (fst (last tried)))"
    by blast
  have "k < length tried"
  proof (rule ccontr)
    assume "\<not> k < length tried"
    then have le: "length tried \<le> k" by simp
    with k t(1) have "rest \<noteq> []" by auto
    with t(3,4) have "res = Inr True" by (cases res) auto
    with t(5) have ne: "tried \<noteq> []" and nd: "\<not> declines (response env (fst (last tried)))"
      by auto
    from ne have "last tried = hs ! (length tried - 1)"
      using t(1) by (simp add: last_conv_nth nth_append)
    moreover from ne le have "length tried - 1 < k" by (cases tried) auto
    ultimately show False using before nd by auto
  qed
  then have "hs ! k \<in> set tried" using t(1) by (simp add: nth_append)
  with allowed have "fst (hs ! k) \<in> set (filter (fallback_allowed cfg) (map fst tried))" by auto
  moreover from t(2) have "requested (emitted w w')
      = filter (fallback_allowed cfg) (map fst tried)"
    by (simp add: emitted_append)
  ultimately show ?thesis by simp
qed

lemma collect_fallback_skills_returns:
  assumes "emit_raises d = None"
  shows "listeners (snd (collect_fallback_skills reg us lang r d w)) = listeners w"
  using assms
  by (auto simp: collect_fallback_skills_def Let_def bus_on_def bus_emit_def bus_remove_def
        split: sum.splits)



lemma fallback_range_sent:
  assumes run: "fallback_range cfg reg env us lang r w = (res, w')"
  shows "sent w' = sent w @ emitted w w'"
    and "Complete_intent_failure \<notin> set (emitted w w')"
proof -
  have "\<exists>ms. sent w' = sent w @ ms"
    using run
  proof (cases rule: fallback_range_run)
    case (discovery_raised e)
    then show ?thesis using fallbacks_effect by blast
  next
    case (attempted fbs w1 lr w2)
    from fallbacks_effect [OF attempted(1)] obtain ms1 where "sent w1 = sent w @ ms1" by blast
    moreover from attempt_handlers_effect [OF attempted(2)] obtain ms2 where
      "sent w2 = sent w1 @ ms2" by blast
    moreover from attempted(3) have "\<exists>ms3. sent w' = sent w2 @ ms3"
      by (auto simp: bus_emit_def)
    ultimately show ?thesis by auto
  qed
  then show "sent w' = sent w @ emitted w w'" by (auto simp: emitted_def)
  from fallback_range_effect(2) [OF run] show "Complete_intent_failure \<notin> set (emitted w w')"
    by (auto simp: request_def)
qed







lemma fold_handle_ack_willing:
  assumes "h \<in> set (snd (fold (handle_ack reg) batch acc))"
  shows "h \<in> set (snd acc)
         \<or> (h \<in> set (dict_keys reg)
            \<and> (\<exists>p \<in> set batch. pong_skill_id p = h
                  \<and> truthy (case can_handle p of None \<Rightarrow> PyBool True | Some v \<Rightarrow> v)))"
  using assms
proof (induction batch arbitrary: acc)
  case Nil
  then show ?case by simp
next
  case (Cons p batch)
  from Cons.prems have "h \<in> set (snd (fold (handle_ack reg) batch (handle_ack reg p acc)))"
    by simp
  from Cons.IH [OF this] show ?case
    by (cases acc) (auto simp: handle_ack_def Let_def split: if_splits)
qed

lemma wait_for_acks_willing:
  assumes "h \<in> set (snd (wait_for_acks reg acc batches))"
  shows "h \<in> set (snd acc)
         \<or> (h \<in> set (dict_keys reg)
            \<and> (\<exists>batch \<in> set batches. \<exists>p \<in> set batch. pong_skill_id p = h
                  \<and> truthy (case can_handle p of None \<Rightarrow> PyBool True | Some v \<Rightarrow> v)))"
  using assms
proof (induction batches arbitrary: acc)
  case Nil
  then show ?case by simp
next
  case (Cons batch batches)
  let ?acc = "fold (handle_ack reg) batch acc"
  have "h \<in> set (snd ?acc) \<or> h \<in> set (snd (wait_for_acks reg ?acc batches))"
    using Cons.prems by (auto simp: Let_def split: if_splits)
  then show ?case
  proof
    assume "h \<in> set (snd ?acc)"
    from fold_handle_ack_willing [OF this] show ?thesis by auto
  next
    assume "h \<in> set (snd (wait_for_acks reg ?acc batches))"
    from Cons.IH [OF this] show ?thesis
    proof
      assume "h \<in> set (snd ?acc)"
      from fold_handle_ack_willing [OF this] show ?thesis by auto
    next
      assume "h \<in> set (dict_keys reg)
            \<and> (\<exists>batch \<in> set batches. \<exists>p \<in> set batch. pong_skill_id p = h
                  \<and> truthy (case can_handle p of None \<Rightarrow> PyBool True | Some v \<Rightarrow> v))"
      then show ?thesis by auto
    qed
  qed
qed

text \<open>
  A skill that \<open>_collect_fallback_skills\<close> returns is registered and has sent, during that
  call, a pong whose \<open>can_handle\<close> is true or absent.
\<close>

lemma collected_skill_reported_willing:
  assumes "collect_fallback_skills reg us lang r d w = (Inr ids, w')" and "h \<in> set ids"
  shows "h \<in> set (dict_keys reg)
         \<and> (\<exists>batch \<in> set (pong_batches d). \<exists>p \<in> set batch. pong_skill_id p = h
               \<and> truthy (case can_handle p of None \<Rightarrow> PyBool True | Some v \<Rightarrow> v))"
proof -
  from assms obtain pre where "h \<in> set (snd (wait_for_acks reg (pre, []) (pong_batches d)))"
    by (auto simp: collect_fallback_skills_def Let_def split: sum.splits option.splits)
  from wait_for_acks_willing [OF this] show ?thesis by simp
qed

section \<open>What one call of the router does\<close>

lemma quiet_refl [simp]: "quiet w w"
  by (simp add: quiet_def)

lemma quiet_trans: "quiet w w1 \<Longrightarrow> quiet w1 w2 \<Longrightarrow> quiet w w2"
  by (auto simp: quiet_def)

lemma quiet_calls_update [simp]: "quiet w (w'\<lparr>calls := c\<rparr>) = quiet w w'"
  by (simp add: quiet_def)

lemma quiet_calls_update_left [simp]: "quiet (w\<lparr>calls := c\<rparr>) w' = quiet w w'"
  by (simp add: quiet_def)

lemma fallback_range_quiet:
  assumes run: "fallback_range cfg reg env us lang r w = (res, w')"
  shows "calls w' = calls w" and "quiet w w'"
  using fallback_range_effect(1) [OF run] fallback_range_sent [OF run]
  by (auto simp: same_router_state_def quiet_def)

lemma match_func_effect:
  assumes "match_func cfg reg env f us lang w = (res, w')"
  shows "calls w' = calls w" and "quiet w w'"
    and "f \<notin> {High_prio, Medium_prio, Low_prio} \<Longrightarrow> res = matcher env f us lang"
  using assms
  by (cases f; auto simp: high_prio_def medium_prio_def low_prio_def
        dest: fallback_range_quiet)+

lemma match_loop_effect:
  assumes "match_loop cfg reg env us lang fs w = (res, w')"
  shows "\<exists>tr. calls w' = calls w @ tr \<and> map fst tr = take (length tr) fs
           \<and> (\<forall>x \<in> set (butlast tr). snd x = Inr None)
           \<and> (if res = Inr None then length tr = length fs \<and> (\<forall>x \<in> set tr. snd x = Inr None)
               else tr \<noteq> [] \<and> snd (last tr) = res)
           \<and> (\<forall>x \<in> set tr. fst x \<notin> {High_prio, Medium_prio, Low_prio}
                 \<longrightarrow> snd x = matcher env (fst x) us lang)
           \<and> quiet w w'"
  using assms
proof (induction fs arbitrary: w res w')
  case Nil
  then show ?case by auto
next
  case (Cons f fs)
  obtain r1 w1 where m: "match_func cfg reg env f us lang w = (r1, w1)"
    by (cases "match_func cfg reg env f us lang w")
  note e = match_func_effect [OF m]
  show ?case
  proof (cases "r1 = Inr None")
    case False
    with Cons.prems m have rw: "res = r1" "w' = w1\<lparr>calls := calls w1 @ [(f, r1)]\<rparr>"
      by (auto split: sum.splits option.splits)
    let ?tr = "[(f, r1)]"
    have "calls w' = calls w @ ?tr" using rw e(1) by simp
    moreover have "quiet w w'" using rw e(2) by simp
    moreover have "\<forall>x \<in> set ?tr. fst x \<notin> {High_prio, Medium_prio, Low_prio}
                 \<longrightarrow> snd x = matcher env (fst x) us lang"
      using e(3) by simp
    ultimately show ?thesis using rw False
      by (intro exI [of _ ?tr]) simp
  next
    case True
    let ?w1 = "w1\<lparr>calls := calls w1 @ [(f, Inr None)]\<rparr>"
    from True Cons.prems m have rec: "match_loop cfg reg env us lang fs ?w1 = (res, w')"
      by simp
    from Cons.IH [OF rec] obtain tr where ih:
      "calls w' = calls ?w1 @ tr" "map fst tr = take (length tr) fs"
      "\<forall>x \<in> set (butlast tr). snd x = Inr None"
      "if res = Inr None then length tr = length fs \<and> (\<forall>x \<in> set tr. snd x = Inr None)
               else tr \<noteq> [] \<and> snd (last tr) = res"
      "\<forall>x \<in> set tr. fst x \<notin> {High_prio, Medium_prio, Low_prio}
                 \<longrightarrow> snd x = matcher env (fst x) us lang"
      "quiet ?w1 w'"
      by blast
    let ?tr = "(f, Inr None) # tr"
    have a: "calls w' = calls w @ ?tr" using ih(1) e(1) by simp
    have b: "map fst ?tr = take (length ?tr) (f # fs)" using ih(2) by simp
    have c: "\<forall>x \<in> set (butlast ?tr). snd x = Inr None" using ih(3) by auto
    have d: "if res = Inr None
             then length ?tr = length (f # fs) \<and> (\<forall>x \<in> set ?tr. snd x = Inr None)
             else ?tr \<noteq> [] \<and> snd (last ?tr) = res"
      using ih(4) by (auto split: if_splits)
    have g: "\<forall>x \<in> set ?tr. fst x \<notin> {High_prio, Medium_prio, Low_prio}
                 \<longrightarrow> snd x = matcher env (fst x) us lang"
      using ih(5) e(3) True by auto
    from ih(6) have "quiet w1 w'" by simp
    with e(2) have h: "quiet w w'" by (rule quiet_trans)
    from a b c d g h show ?thesis by blast
  qed
qed

lemma handle_utterance_run:
  assumes run: "handle_utterance cfg fcfg reg env msg0 w = (out, w')"
  obtains (not_routed) e where "out = Logged e" "w' = w"
    | (routed) msg lang res w1 where
        "transformers env msg0 = Inr msg"
        "disambiguate_lang cfg (get_message_lang env msg) (msg_context msg) = Inr lang"
        "match_loop fcfg reg env (utterances msg) lang match_funcs w = (res, w1)"
        "(\<exists>e. res = Inl e \<and> out = Logged e \<and> w' = w1)
         \<or> (\<exists>m. res = Inr (Some m) \<and> out = Returned (Some m) (msg_context msg)
                \<and> w' = launch msg m w1)
         \<or> (res = Inr None \<and> out = Returned None (msg_context msg)
                \<and> w' = send_complete_intent_failure w1)"
proof (cases "transformers env msg0")
  case (Inl e)
  with run have "out = Logged e" "w' = w" by (auto simp: handle_utterance_def)
  then show ?thesis by (rule not_routed)
next
  case (Inr msg)
  show ?thesis
  proof (cases "disambiguate_lang cfg (get_message_lang env msg) (msg_context msg)")
    case (Inl e)
    with run Inr have "out = Logged e" "w' = w" by (auto simp: handle_utterance_def)
    then show ?thesis by (rule not_routed)
  next
    case lang: (Inr lang)
    obtain res w1 where
      m: "match_loop fcfg reg env (utterances msg) lang match_funcs w = (res, w1)"
      by (cases "match_loop fcfg reg env (utterances msg) lang match_funcs w")
    have "(\<exists>e. res = Inl e \<and> out = Logged e \<and> w' = w1)
         \<or> (\<exists>m. res = Inr (Some m) \<and> out = Returned (Some m) (msg_context msg)
                \<and> w' = launch msg m w1)
         \<or> (res = Inr None \<and> out = Returned None (msg_context msg)
                \<and> w' = send_complete_intent_failure w1)"
      using run Inr lang m
      by (auto simp: handle_utterance_def split: sum.splits option.splits)
    with Inr lang m show ?thesis by (rule routed)
  qed
qed

lemma launch_effect:
  "calls (launch msg m w) = calls w" "error_sounds (launch msg m w) = error_sounds w"
  "\<exists>ms. sent (launch msg m w) = sent w @ ms \<and> Complete_intent_failure \<notin> set ms"
  by (auto simp: launch_def Let_def bus_emit_def split: option.splits)

lemma send_complete_intent_failure_effect:
  "calls (send_complete_intent_failure w) = calls w"
  "error_sounds (send_complete_intent_failure w) = Suc (error_sounds w)"
  "sent (send_complete_intent_failure w) = sent w @ [Complete_intent_failure]"
  by (simp_all add: send_complete_intent_failure_def bus_emit_def)

text \<open>What one call of \<open>handle_utterance\<close> leaves in the trace of calls.\<close>

lemma handle_utterance_called:
  assumes run: "handle_utterance cfg fcfg reg env msg0 w = (out, w')"
  shows "map fst (called w w') = take (length (called w w')) match_funcs"
    and "\<forall>x \<in> set (butlast (called w w')). snd x = Inr None"
    and "\<And>m c. out = Returned (Some m) c \<Longrightarrow>
           called w w' \<noteq> [] \<and> snd (last (called w w')) = Inr (Some m)"
    and "\<And>c. out = Returned None c \<Longrightarrow>
           called w w' = map (\<lambda>f. (f, Inr None)) match_funcs"
    and "\<And>e. out = Logged e \<Longrightarrow>
           called w w' = [] \<or> snd (last (called w w')) = Inl e"
    and "\<exists>us lang. \<forall>x \<in> set (called w w'). fst x \<notin> {High_prio, Medium_prio, Low_prio}
           \<longrightarrow> snd x = matcher env (fst x) us lang"
proof -
  have "map fst (called w w') = take (length (called w w')) match_funcs
    \<and> (\<forall>x \<in> set (butlast (called w w')). snd x = Inr None)
    \<and> (\<forall>m c. out = Returned (Some m) c \<longrightarrow>
           called w w' \<noteq> [] \<and> snd (last (called w w')) = Inr (Some m))
    \<and> (\<forall>c. out = Returned None c \<longrightarrow> called w w' = map (\<lambda>f. (f, Inr None)) match_funcs)
    \<and> (\<forall>e. out = Logged e \<longrightarrow> called w w' = [] \<or> snd (last (called w w')) = Inl e)
    \<and> (\<exists>us lang. \<forall>x \<in> set (called w w'). fst x \<notin> {High_prio, Medium_prio, Low_prio}
           \<longrightarrow> snd x = matcher env (fst x) us lang)"
    using run
  proof (cases rule: handle_utterance_run)
    case (not_routed e)
    then show ?thesis by (simp add: called_def)
  next
    case (routed msg lang res w1)
    from match_loop_effect [OF routed(3)] obtain tr where tr:
      "calls w1 = calls w @ tr" "map fst tr = take (length tr) match_funcs"
      "\<forall>x \<in> set (butlast tr). snd x = Inr None"
      "if res = Inr None then length tr = length match_funcs \<and> (\<forall>x \<in> set tr. snd x = Inr None)
       else tr \<noteq> [] \<and> snd (last tr) = res"
      "\<forall>x \<in> set tr. fst x \<notin> {High_prio, Medium_prio, Low_prio}
                 \<longrightarrow> snd x = matcher env (fst x) (utterances msg) lang"
      by blast
    have "calls w' = calls w1"
      using routed(4) by (auto simp: launch_effect send_complete_intent_failure_effect)
    with tr(1) have c: "called w w' = tr" by (simp add: called_def)
    have none: "tr = map (\<lambda>f. (f, Inr None)) match_funcs" if "res = Inr None"
    proof (rule nth_equalityI)
      from that tr(4) have l: "length tr = length match_funcs"
        and s: "\<forall>x \<in> set tr. snd x = Inr None" by auto
      show "length tr = length (map (\<lambda>f. (f, Inr None)) match_funcs)" using l by simp
      fix i assume i: "i < length tr"
      from tr(2) l have "map fst tr = match_funcs" by simp
      then have "fst (tr ! i) = match_funcs ! i" using i nth_map [of i tr fst] by simp
      moreover have "snd (tr ! i) = Inr None" using s i by simp
      ultimately show "tr ! i = map (\<lambda>f. (f, Inr None)) match_funcs ! i"
        using i l by (simp add: prod_eq_iff)
    qed
    have c1: "map fst tr = take (length tr) match_funcs" by (rule tr(2))
    have c2: "\<forall>x \<in> set (butlast tr). snd x = Inr None" by (rule tr(3))
    have c3: "\<forall>m c. out = Returned (Some m) c \<longrightarrow> tr \<noteq> [] \<and> snd (last tr) = Inr (Some m)"
      using routed(4) tr(4) by auto
    have c4: "\<forall>c. out = Returned None c \<longrightarrow> tr = map (\<lambda>f. (f, Inr None)) match_funcs"
      using routed(4) none by auto
    have c5: "\<forall>e. out = Logged e \<longrightarrow> tr = [] \<or> snd (last tr) = Inl e"
      using routed(4) tr(4) by auto
    have c6: "\<exists>us lang. \<forall>x \<in> set tr. fst x \<notin> {High_prio, Medium_prio, Low_prio}
           \<longrightarrow> snd x = matcher env (fst x) us lang"
      using tr(5) by blast
    show ?thesis unfolding c using c1 c2 c3 c4 c5 c6 by (intro conjI)
  qed
  then show "map fst (called w w') = take (length (called w w')) match_funcs"
    and "\<forall>x \<in> set (butlast (called w w')). snd x = Inr None"
    and "\<And>m c. out = Returned (Some m) c \<Longrightarrow>
           called w w' \<noteq> [] \<and> snd (last (called w w')) = Inr (Some m)"
    and "\<And>c. out = Returned None c \<Longrightarrow>
           called w w' = map (\<lambda>f. (f, Inr None)) match_funcs"
    and "\<And>e. out = Logged e \<Longrightarrow>
           called w w' = [] \<or> snd (last (called w w')) = Inl e"
    and "\<exists>us lang. \<forall>x \<in> set (called w w'). fst x \<notin> {High_prio, Medium_prio, Low_prio}
           \<longrightarrow> snd x = matcher env (fst x) us lang"
    by blast+
qed

lemma filter_failure_Nil:
  "filter (\<lambda>m. m = Complete_intent_failure) ms = [] \<longleftrightarrow> Complete_intent_failure \<notin> set ms"
  by (induction ms) auto

lemma handle_utterance_signal:
  assumes run: "handle_utterance cfg fcfg reg env msg0 w = (out, w')"
  shows "length (filter (\<lambda>m. m = Complete_intent_failure) (emitted w w'))
         = (if \<exists>c. out = Returned None c then 1 else 0)"
    and "error_sounds w' = (if \<exists>c. out = Returned None c then Suc (error_sounds w)
                            else error_sounds w)"
proof -
  have "length (filter (\<lambda>m. m = Complete_intent_failure) (emitted w w'))
         = (if \<exists>c. out = Returned None c then 1 else 0)
       \<and> error_sounds w' = (if \<exists>c. out = Returned None c then Suc (error_sounds w)
                            else error_sounds w)"
    using run
  proof (cases rule: handle_utterance_run)
    case (not_routed e)
    then show ?thesis by (simp add: emitted_def)
  next
    case (routed msg lang res w1)
    from match_loop_effect [OF routed(3)] have "quiet w w1" by blast
    then obtain ms where q: "sent w1 = sent w @ ms" "Complete_intent_failure \<notin> set ms"
      "error_sounds w1 = error_sounds w" by (auto simp: quiet_def)
    from routed(4) show ?thesis
    proof (elim disjE exE conjE)
      fix e assume "res = Inl e" "out = Logged e" "w' = w1"
      with q show ?thesis by (simp add: emitted_def filter_failure_Nil)
    next
      fix m assume a: "res = Inr (Some m)" "out = Returned (Some m) (msg_context msg)"
        "w' = launch msg m w1"
      from launch_effect(3) [of msg m w1] obtain ms' where
        "sent (launch msg m w1) = sent w1 @ ms'" "Complete_intent_failure \<notin> set ms'" by blast
      with q a have "emitted w w' = ms @ ms'" "Complete_intent_failure \<notin> set (ms @ ms')"
        by (simp_all add: emitted_def)
      then have "filter (\<lambda>m. m = Complete_intent_failure) (emitted w w') = []"
        by (simp add: filter_failure_Nil)
      with a q(3) show ?thesis by (simp add: launch_effect)
    next
      assume a: "res = Inr None" "out = Returned None (msg_context msg)"
        "w' = send_complete_intent_failure w1"
      with q have "emitted w w' = ms @ [Complete_intent_failure]"
        by (simp add: emitted_def send_complete_intent_failure_effect)
      with q(2) have "filter (\<lambda>m. m = Complete_intent_failure) (emitted w w')
                      = [Complete_intent_failure]"
        by (simp add: filter_failure_Nil)
      with a q(3) show ?thesis by (simp add: send_complete_intent_failure_effect)
    qed
  qed
  then show "length (filter (\<lambda>m. m = Complete_intent_failure) (emitted w w'))
         = (if \<exists>c. out = Returned None c then 1 else 0)"
    and "error_sounds w' = (if \<exists>c. out = Returned None c then Suc (error_sounds w)
                            else error_sounds w)"
    by blast+
qed

lemma all_declined_returns_none:
  assumes run: "handle_utterance cfg fcfg reg env msg0 w = (out, w')"
    and all: "called w w' = map (\<lambda>f. (f, Inr None)) match_funcs"
  shows "\<exists>c. out = Returned None c"
proof (cases out)
  case (Logged e)
  from handle_utterance_called(5) [OF run Logged] all show ?thesis
    by (simp add: match_funcs_def)
next
  case (Returned mo c)
  show ?thesis
  proof (cases mo)
    case None
    with Returned show ?thesis by simp
  next
    case (Some m)
    with Returned handle_utterance_called(3) [OF run, of m c] all show ?thesis
      by (simp add: match_funcs_def)
  qed
qed

lemma some_match_not_none:
  assumes run: "handle_utterance cfg fcfg reg env msg0 w = (out, w')"
    and x: "x \<in> set (called w w')" "snd x = Inr (Some m)"
  shows "\<not> (\<exists>c. out = Returned None c)"
proof
  assume "\<exists>c. out = Returned None c"
  then obtain c where "out = Returned None c" ..
  from handle_utterance_called(4) [OF run this] x show False by auto
qed

lemma fallback_range_no_handlers:
  assumes "us \<noteq> []" and "legacy_response env = None"
  shows "fst (fallback_range cfg [] env us lang r w) = Inr None"
  using assms by (cases us) (simp_all add: fallback_range_def sorted_handlers_def Let_def)

lemma match_loop_no_handlers:
  assumes "us \<noteq> []" and "\<forall>f. legacy_response (skills env f) = None"
    and "\<forall>f us lang. matcher env f us lang = Inr None"
  shows "fst (match_loop fcfg [] env us lang fs w) = Inr None"
proof (induction fs arbitrary: w)
  case Nil
  show ?case by simp
next
  case (Cons f fs)
  have "fst (match_func fcfg [] env f us lang w) = Inr None"
    using assms
    by (cases f) (simp_all add: high_prio_def medium_prio_def low_prio_def
          fallback_range_no_handlers)
  then obtain w1 where "match_func fcfg [] env f us lang w = (Inr None, w1)"
    by (cases "match_func fcfg [] env f us lang w") simp
  with Cons.IH show ?case by simp
qed

lemma no_handlers_returns_none:
  assumes "transformers env msg0 = Inr msg" and "utterances msg \<noteq> []"
    and "disambiguate_lang cfg (get_message_lang env msg) (msg_context msg) = Inr lang"
    and "\<forall>f. legacy_response (skills env f) = None"
    and "\<forall>f us lang. matcher env f us lang = Inr None"
  shows "fst (handle_utterance cfg fcfg [] env msg0 w) = Returned None (msg_context msg)"
proof -
  have "fst (match_loop fcfg [] env (utterances msg) lang match_funcs w) = Inr None"
    by (rule match_loop_no_handlers [OF assms(2,4,5)])
  then obtain w1 where
    "match_loop fcfg [] env (utterances msg) lang match_funcs w = (Inr None, w1)"
    by (cases "match_loop fcfg [] env (utterances msg) lang match_funcs w") simp
  with assms(1,3) show ?thesis by (simp add: handle_utterance_def)
qed

lemma match_loop_chain:
  assumes "match_loop cfg reg env us lang fs w = (res, w')"
  shows "\<exists>tr ws. calls w' = calls w @ tr \<and> length ws = Suc (length tr) \<and> ws ! 0 = w
           \<and> last ws = w'
           \<and> (\<forall>i < length tr. \<exists>w2.
                 match_func cfg reg env (fs ! i) us lang (ws ! i) = (snd (tr ! i), w2)
                 \<and> ws ! Suc i = w2\<lparr>calls := calls w2 @ [tr ! i]\<rparr>)"
  using assms
proof (induction fs arbitrary: w res w')
  case Nil
  then have "calls w' = calls w @ []" "length [w] = Suc (length ([] :: (stage \<times> outcome) list))"
    "[w] ! 0 = w" "last [w] = w'" by simp_all
  then show ?case by (intro exI [of _ "[]"] exI [of _ "[w]"]) simp
next
  case (Cons f fs)
  obtain r1 w1 where m: "match_func cfg reg env f us lang w = (r1, w1)"
    by (cases "match_func cfg reg env f us lang w")
  note e = match_func_effect [OF m]
  show ?case
  proof (cases "r1 = Inr None")
    case False
    with Cons.prems m have rw: "res = r1" "w' = w1\<lparr>calls := calls w1 @ [(f, r1)]\<rparr>"
      by (auto split: sum.splits option.splits)
    let ?tr = "[(f, r1)]" and ?ws = "[w, w']"
    have "calls w' = calls w @ ?tr" using rw e(1) by simp
    moreover have "\<forall>i < length ?tr. \<exists>w2.
                 match_func cfg reg env ((f # fs) ! i) us lang (?ws ! i) = (snd (?tr ! i), w2)
                 \<and> ?ws ! Suc i = w2\<lparr>calls := calls w2 @ [?tr ! i]\<rparr>"
      using m rw by simp
    ultimately show ?thesis
      by (intro exI [of _ ?tr] exI [of _ ?ws]) simp
  next
    case True
    let ?w1 = "w1\<lparr>calls := calls w1 @ [(f, Inr None)]\<rparr>"
    from True Cons.prems m have rec: "match_loop cfg reg env us lang fs ?w1 = (res, w')"
      by simp
    from Cons.IH [OF rec] obtain tr ws where ih:
      "calls w' = calls ?w1 @ tr" "length ws = Suc (length tr)" "ws ! 0 = ?w1" "last ws = w'"
      "\<forall>i < length tr. \<exists>w2.
                 match_func cfg reg env (fs ! i) us lang (ws ! i) = (snd (tr ! i), w2)
                 \<and> ws ! Suc i = w2\<lparr>calls := calls w2 @ [tr ! i]\<rparr>"
      by blast
    let ?tr = "(f, Inr None) # tr" and ?ws = "w # ws"
    have a: "calls w' = calls w @ ?tr" using ih(1) e(1) by simp
    have b: "length ?ws = Suc (length ?tr)" using ih(2) by simp
    have c: "?ws ! 0 = w" by simp
    have ne: "ws \<noteq> []" using ih(2) by auto
    then have d: "last ?ws = w'" using ih(4) by simp
    have g: "\<forall>i < length ?tr. \<exists>w2.
                 match_func cfg reg env ((f # fs) ! i) us lang (?ws ! i) = (snd (?tr ! i), w2)
                 \<and> ?ws ! Suc i = w2\<lparr>calls := calls w2 @ [?tr ! i]\<rparr>"
    proof (intro allI impI)
      fix i assume i: "i < length ?tr"
      show "\<exists>w2. match_func cfg reg env ((f # fs) ! i) us lang (?ws ! i) = (snd (?tr ! i), w2)
                 \<and> ?ws ! Suc i = w2\<lparr>calls := calls w2 @ [?tr ! i]\<rparr>"
      proof (cases i)
        case 0
        with m True ih(3) show ?thesis by simp
      next
        case (Suc j)
        with i have "j < length tr" by simp
        with ih(5) Suc show ?thesis by simp
      qed
    qed
    from a b c d g show ?thesis by blast
  qed
qed

lemma match_func_stage:
  assumes "i < 9" and "match_func fcfg reg env (match_funcs ! i) us lang w1 = (r, w2)"
  shows "if i = 4 then fallback_range fcfg reg (skills env High_prio) us lang
                         \<lparr>start = 0, stop = 5\<rparr> w1 = (r, w2)
         else if i = 6 then fallback_range fcfg reg (skills env Medium_prio) us lang
                         \<lparr>start = 5, stop = 90\<rparr> w1 = (r, w2)
         else if i = 8 then fallback_range fcfg reg (skills env Low_prio) us lang
                         \<lparr>start = 90, stop = 101\<rparr> w1 = (r, w2)
         else w2 = w1 \<and> r = matcher env (match_funcs ! i) us lang"
proof -
  from assms(1) have "i = 0 \<or> i = 1 \<or> i = 2 \<or> i = 3 \<or> i = 4 \<or> i = 5 \<or> i = 6 \<or> i = 7 \<or> i = 8"
    by linarith
  then show ?thesis
    using assms(2)
    by (elim disjE) (auto simp: match_funcs_def high_prio_def medium_prio_def low_prio_def)
qed

lemma handle_utterance_chain:
  assumes run: "handle_utterance cfg fcfg reg env msg0 w = (out, w')"
    and t: "transformers env msg0 = Inr msg"
    and l: "disambiguate_lang cfg (get_message_lang env msg) (msg_context msg) = Inr lang"
  shows "called w w' \<noteq> []"
    and "snd (last (called w w')) = Inr None \<Longrightarrow> map fst (called w w') = match_funcs"
    and "\<exists>ws. length ws = Suc (length (called w w')) \<and> ws ! 0 = w
           \<and> (\<forall>i < length (called w w'). \<exists>w2.
                 ws ! Suc i = w2\<lparr>calls := calls w2 @ [called w w' ! i]\<rparr>
                 \<and> (if i = 4 then fallback_range fcfg reg (skills env High_prio) (utterances msg)
                                    lang \<lparr>start = 0, stop = 5\<rparr> (ws ! i)
                                  = (snd (called w w' ! i), w2)
                    else if i = 6 then fallback_range fcfg reg (skills env Medium_prio)
                                    (utterances msg) lang \<lparr>start = 5, stop = 90\<rparr> (ws ! i)
                                  = (snd (called w w' ! i), w2)
                    else if i = 8 then fallback_range fcfg reg (skills env Low_prio)
                                    (utterances msg) lang \<lparr>start = 90, stop = 101\<rparr> (ws ! i)
                                  = (snd (called w w' ! i), w2)
                    else w2 = ws ! i
                         \<and> snd (called w w' ! i)
                             = matcher env (match_funcs ! i) (utterances msg) lang))"
proof -
  obtain res w1 where
    m: "match_loop fcfg reg env (utterances msg) lang match_funcs w = (res, w1)"
    by (cases "match_loop fcfg reg env (utterances msg) lang match_funcs w")
  have c: "calls w' = calls w1"
    using run t l m
    by (auto simp: handle_utterance_def launch_effect send_complete_intent_failure_effect
          split: sum.splits option.splits)
  from match_loop_effect [OF m] obtain tr where tr:
    "calls w1 = calls w @ tr" "map fst tr = take (length tr) match_funcs"
    "if res = Inr None then length tr = length match_funcs \<and> (\<forall>x \<in> set tr. snd x = Inr None)
     else tr \<noteq> [] \<and> snd (last tr) = res"
    by blast
  from tr(1) c have ctr: "called w w' = tr" by (simp add: called_def)
  have len: "length tr \<le> 9"
  proof -
    have "length tr = length (map fst tr)" by simp
    also have "\<dots> = length (take (length tr) match_funcs)" by (simp only: tr(2))
    also have "\<dots> \<le> length match_funcs" by simp
    also have "length match_funcs = 9" by (simp add: match_funcs_def)
    finally show ?thesis .
  qed
  show "called w w' \<noteq> []"
    unfolding ctr using tr(3) by (auto simp: match_funcs_def split: if_splits)
  show "map fst (called w w') = match_funcs" if "snd (last (called w w')) = Inr None"
  proof -
    from that tr(3) have "length tr = length match_funcs"
      unfolding ctr by (auto split: if_splits)
    with tr(2) show ?thesis unfolding ctr by simp
  qed
  from match_loop_chain [OF m] obtain tr' ws where ch:
    "calls w1 = calls w @ tr'" "length ws = Suc (length tr')" "ws ! 0 = w"
    "\<forall>i < length tr'. \<exists>w2.
        match_func fcfg reg env (match_funcs ! i) (utterances msg) lang (ws ! i)
          = (snd (tr' ! i), w2)
        \<and> ws ! Suc i = w2\<lparr>calls := calls w2 @ [tr' ! i]\<rparr>"
    by blast
  from ch(1) tr(1) have eq: "tr' = tr" by simp
  from ch(2) eq have lw: "length ws = Suc (length tr)" by simp
  have big: "\<forall>i < length tr. \<exists>w2.
                 ws ! Suc i = w2\<lparr>calls := calls w2 @ [tr ! i]\<rparr>
                 \<and> (if i = 4 then fallback_range fcfg reg (skills env High_prio) (utterances msg)
                                    lang \<lparr>start = 0, stop = 5\<rparr> (ws ! i)
                                  = (snd (tr ! i), w2)
                    else if i = 6 then fallback_range fcfg reg (skills env Medium_prio)
                                    (utterances msg) lang \<lparr>start = 5, stop = 90\<rparr> (ws ! i)
                                  = (snd (tr ! i), w2)
                    else if i = 8 then fallback_range fcfg reg (skills env Low_prio)
                                    (utterances msg) lang \<lparr>start = 90, stop = 101\<rparr> (ws ! i)
                                  = (snd (tr ! i), w2)
                    else w2 = ws ! i
                         \<and> snd (tr ! i) = matcher env (match_funcs ! i) (utterances msg) lang)"
  proof (intro allI impI)
    fix i assume i: "i < length tr"
    with ch(4) eq obtain w2 where w2:
      "match_func fcfg reg env (match_funcs ! i) (utterances msg) lang (ws ! i)
          = (snd (tr ! i), w2)"
      "ws ! Suc i = w2\<lparr>calls := calls w2 @ [tr ! i]\<rparr>" by blast
    from i len have "i < 9" by simp
    from match_func_stage [OF this w2(1)] w2(2)
    show "\<exists>w2. ws ! Suc i = w2\<lparr>calls := calls w2 @ [tr ! i]\<rparr>
                 \<and> (if i = 4 then fallback_range fcfg reg (skills env High_prio) (utterances msg)
                                    lang \<lparr>start = 0, stop = 5\<rparr> (ws ! i)
                                  = (snd (tr ! i), w2)
                    else if i = 6 then fallback_range fcfg reg (skills env Medium_prio)
                                    (utterances msg) lang \<lparr>start = 5, stop = 90\<rparr> (ws ! i)
                                  = (snd (tr ! i), w2)
                    else if i = 8 then fallback_range fcfg reg (skills env Low_prio)
                                    (utterances msg) lang \<lparr>start = 90, stop = 101\<rparr> (ws ! i)
                                  = (snd (tr ! i), w2)
                    else w2 = ws ! i
                         \<and> snd (tr ! i) = matcher env (match_funcs ! i) (utterances msg) lang)"
      by (intro exI [of _ w2] conjI)
  qed
  show "\<exists>ws. length ws = Suc (length (called w w')) \<and> ws ! 0 = w
           \<and> (\<forall>i < length (called w w'). \<exists>w2.
                 ws ! Suc i = w2\<lparr>calls := calls w2 @ [called w w' ! i]\<rparr>
                 \<and> (if i = 4 then fallback_range fcfg reg (skills env High_prio) (utterances msg)
                                    lang \<lparr>start = 0, stop = 5\<rparr> (ws ! i)
                                  = (snd (called w w' ! i), w2)
                    else if i = 6 then fallback_range fcfg reg (skills env Medium_prio)
                                    (utterances msg) lang \<lparr>start = 5, stop = 90\<rparr> (ws ! i)
                                  = (snd (called w w' ! i), w2)
                    else if i = 8 then fallback_range fcfg reg (skills env Low_prio)
                                    (utterances msg) lang \<lparr>start = 90, stop = 101\<rparr> (ws ! i)
                                  = (snd (called w w' ! i), w2)
                    else w2 = ws ! i
                         \<and> snd (called w w' ! i)
                             = matcher env (match_funcs ! i) (utterances msg) lang))"
    unfolding ctr using lw ch(3) big by (intro exI [of _ ws] conjI)
qed

section \<open>The claims\<close>

text \<open>The definitions that the evaluations at concrete inputs unfold.\<close>

lemmas eval_defs = fallback_range_def collect_fallback_skills_def in_band_def bus_on_def bus_emit_def
  bus_remove_def handle_ack_def dict_keys_def dict_get_def pong_event_def attempt_fallback_def
  fallback_allowed_def sorted_handlers_def priority_key_def emitted_def requested_def
  List.map_filter_def Let_def declines_def request_def fallback_match_def
  handle_utterance_def disambiguate_lang_def lang_keys_def secondary_langs_key_def match_funcs_def
  high_prio_def medium_prio_def low_prio_def launch_def send_complete_intent_failure_def called_def

text \<open>
  Claim C1. In every call of \<open>handle_utterance\<close> the matching functions that are called
  are a prefix of the nine of \<open>match_funcs\<close>, in the order converse, high-confidence
  Padatious, Adapt, common QA, fallbacks of the band \<open>(0, 5]\<close>, medium-confidence Padatious,
  fallbacks of \<open>(5, 90]\<close>, low-confidence Padatious, fallbacks of \<open>(90, 101]\<close>; none is
  called twice; every call but the last one returned no match, so the first function
  that returns a match is the last one called, and its match is the match returned. When
  the Adapt matcher returns a match (on this call, or whatever it is given), only the
  converse, the high-confidence Padatious and the Adapt functions are called: no
  fallback band and no later Padatious tier. Once the transformers and the language
  have gone through, the first function is called, and a function that returns no match
  is followed by the next one: when the last call returned no match, all nine were
  called. The calls are chained: each starts in the state the one before left; the
  fifth, the seventh and the ninth are \<open>_fallback_range\<close> on the bands \<open>(0, 5]\<close>,
  \<open>(5, 90]\<close> and \<open>(90, 101]\<close>, and every other call returns what its matcher returns
  for the utterances and the language of the message.
\<close>

theorem stages_in_fixed_order:
  "handle_utterance cfg fcfg reg env msg0 w = (out, w') \<longrightarrow>
     (\<exists>n \<le> 9. map fst (called w w')
        = take n [Converse_with_skills, Match_high, Match_intent, Common_qa_match, High_prio,
                  Match_medium, Medium_prio, Match_low, Low_prio])
     \<and> distinct (map fst (called w w'))
     \<and> (\<forall>x \<in> set (butlast (called w w')). snd x = Inr None)
     \<and> (\<forall>m c. out = Returned (Some m) c \<longrightarrow>
           called w w' \<noteq> [] \<and> snd (last (called w w')) = Inr (Some m))
     \<and> ((\<exists>m. (Match_intent, Inr (Some m)) \<in> set (called w w')) \<longrightarrow>
           set (map fst (called w w')) \<subseteq> {Converse_with_skills, Match_high, Match_intent})
     \<and> ((\<forall>us lang. \<exists>m. matcher env Match_intent us lang = Inr (Some m)) \<longrightarrow>
           set (map fst (called w w')) \<subseteq> {Converse_with_skills, Match_high, Match_intent})
     \<and> match_funcs = [Converse_with_skills, Match_high, Match_intent, Common_qa_match, High_prio,
                       Match_medium, Medium_prio, Match_low, Low_prio]
     \<and> (transformers env msg0 = Inr msg
         \<and> disambiguate_lang cfg (get_message_lang env msg) (msg_context msg) = Inr lang \<longrightarrow>
         called w w' \<noteq> []
         \<and> (snd (last (called w w')) = Inr None \<longrightarrow> map fst (called w w') = match_funcs)
         \<and> (\<exists>ws. length ws = Suc (length (called w w')) \<and> ws ! 0 = w
           \<and> (\<forall>i < length (called w w'). \<exists>w2.
                 ws ! Suc i = w2\<lparr>calls := calls w2 @ [called w w' ! i]\<rparr>
                 \<and> (if i = 4 then fallback_range fcfg reg (skills env High_prio) (utterances msg)
                                    lang \<lparr>start = 0, stop = 5\<rparr> (ws ! i)
                                  = (snd (called w w' ! i), w2)
                    else if i = 6 then fallback_range fcfg reg (skills env Medium_prio)
                                    (utterances msg) lang \<lparr>start = 5, stop = 90\<rparr> (ws ! i)
                                  = (snd (called w w' ! i), w2)
                    else if i = 8 then fallback_range fcfg reg (skills env Low_prio)
                                    (utterances msg) lang \<lparr>start = 90, stop = 101\<rparr> (ws ! i)
                                  = (snd (called w w' ! i), w2)
                    else w2 = ws ! i
                         \<and> snd (called w w' ! i)
                             = matcher env (match_funcs ! i) (utterances msg) lang))))"
proof
  assume run: "handle_utterance cfg fcfg reg env msg0 w = (out, w')"
  let ?tr = "called w w'"
  note c = handle_utterance_called [OF run]
  have "length ?tr = length (map fst ?tr)" by simp
  also have "\<dots> = length (take (length ?tr) match_funcs)" by (simp only: c(1))
  also have "\<dots> \<le> length match_funcs" by simp
  also have "length match_funcs = 9" by (simp add: match_funcs_def)
  finally have len: "length ?tr \<le> 9" .
  have a: "\<exists>n \<le> 9. map fst ?tr
        = take n [Converse_with_skills, Match_high, Match_intent, Common_qa_match, High_prio,
                  Match_medium, Medium_prio, Match_low, Low_prio]"
    using c(1) len unfolding match_funcs_def by blast
  have b: "distinct (map fst ?tr)"
    unfolding c(1) by (rule distinct_take) (simp add: match_funcs_def)
  have d: "\<forall>m c. out = Returned (Some m) c \<longrightarrow> ?tr \<noteq> [] \<and> snd (last ?tr) = Inr (Some m)"
    using c(3) by blast
  have k: "(\<exists>m. (Match_intent, Inr (Some m)) \<in> set ?tr) \<longrightarrow>
           set (map fst ?tr) \<subseteq> {Converse_with_skills, Match_high, Match_intent}"
  proof
    assume "\<exists>m. (Match_intent, Inr (Some m)) \<in> set ?tr"
    then obtain m i where i: "i < length ?tr" "?tr ! i = (Match_intent, Inr (Some m))"
      by (auto simp: in_set_conv_nth)
    have "length ?tr \<le> 3"
    proof (rule ccontr)
      assume "\<not> length ?tr \<le> 3"
      then have l: "3 < length ?tr" by simp
      from i have "fst (?tr ! i) = map fst ?tr ! i" by simp
      also have "\<dots> = match_funcs ! i" using i(1) by (simp add: c(1))
      finally have "match_funcs ! i = match_funcs ! 2" using i(2) by (simp add: match_funcs_def)
      moreover have "distinct match_funcs" "2 < length match_funcs"
        by (simp_all add: match_funcs_def)
      moreover have "i < length match_funcs" using i(1) len by (simp add: match_funcs_def)
      ultimately have "i = 2" by (simp add: nth_eq_iff_index_eq)
      have "butlast ?tr ! 2 = ?tr ! 2" using l by (simp add: nth_butlast)
      moreover have "butlast ?tr ! 2 \<in> set (butlast ?tr)" using l by simp
      ultimately have "?tr ! 2 \<in> set (butlast ?tr)" by simp
      with c(2) have "snd (?tr ! 2) = Inr None" by blast
      with i(2) \<open>i = 2\<close> show False by simp
    qed
    then have "set (take (length ?tr) match_funcs) \<subseteq> set (take 3 match_funcs)"
      by (rule set_take_subset_set_take)
    then show "set (map fst ?tr) \<subseteq> {Converse_with_skills, Match_high, Match_intent}"
      unfolding c(1) by (simp add: match_funcs_def)
  qed
  have e: "(\<forall>us lang. \<exists>m. matcher env Match_intent us lang = Inr (Some m)) \<longrightarrow>
           set (map fst ?tr) \<subseteq> {Converse_with_skills, Match_high, Match_intent}"
  proof
    assume k: "\<forall>us lang. \<exists>m. matcher env Match_intent us lang = Inr (Some m)"
    from c(6) obtain us lang where ext:
      "\<forall>x \<in> set ?tr. fst x \<notin> {High_prio, Medium_prio, Low_prio}
           \<longrightarrow> snd x = matcher env (fst x) us lang" by blast
    have "length ?tr \<le> 3"
    proof (rule ccontr)
      assume "\<not> length ?tr \<le> 3"
      then have l: "3 < length ?tr" by simp
      then have "fst (?tr ! 2) = map fst ?tr ! 2" by simp
      also have "\<dots> = Match_intent" using l by (simp add: c(1) match_funcs_def)
      finally have f: "fst (?tr ! 2) = Match_intent" .
      have "?tr ! 2 \<in> set ?tr" using l by simp
      with ext f have "snd (?tr ! 2) = matcher env Match_intent us lang" by auto
      with k obtain m where s: "snd (?tr ! 2) = Inr (Some m)" by metis
      have "butlast ?tr ! 2 = ?tr ! 2" using l by (simp add: nth_butlast)
      moreover have "butlast ?tr ! 2 \<in> set (butlast ?tr)" using l by simp
      ultimately have "?tr ! 2 \<in> set (butlast ?tr)" by simp
      with c(2) s show False by auto
    qed
    then have "set (take (length ?tr) match_funcs) \<subseteq> set (take 3 match_funcs)"
      by (rule set_take_subset_set_take)
    then show "set (map fst ?tr) \<subseteq> {Converse_with_skills, Match_high, Match_intent}"
      unfolding c(1) by (simp add: match_funcs_def)
  qed
  have mf: "match_funcs = [Converse_with_skills, Match_high, Match_intent, Common_qa_match,
                           High_prio, Match_medium, Medium_prio, Match_low, Low_prio]"
    by (simp add: match_funcs_def)
  have ch: "transformers env msg0 = Inr msg
         \<and> disambiguate_lang cfg (get_message_lang env msg) (msg_context msg) = Inr lang \<longrightarrow>
         called w w' \<noteq> []
         \<and> (snd (last (called w w')) = Inr None \<longrightarrow> map fst (called w w') = match_funcs)
         \<and> (\<exists>ws. length ws = Suc (length (called w w')) \<and> ws ! 0 = w
           \<and> (\<forall>i < length (called w w'). \<exists>w2.
                 ws ! Suc i = w2\<lparr>calls := calls w2 @ [called w w' ! i]\<rparr>
                 \<and> (if i = 4 then fallback_range fcfg reg (skills env High_prio) (utterances msg)
                                    lang \<lparr>start = 0, stop = 5\<rparr> (ws ! i)
                                  = (snd (called w w' ! i), w2)
                    else if i = 6 then fallback_range fcfg reg (skills env Medium_prio)
                                    (utterances msg) lang \<lparr>start = 5, stop = 90\<rparr> (ws ! i)
                                  = (snd (called w w' ! i), w2)
                    else if i = 8 then fallback_range fcfg reg (skills env Low_prio)
                                    (utterances msg) lang \<lparr>start = 90, stop = 101\<rparr> (ws ! i)
                                  = (snd (called w w' ! i), w2)
                    else w2 = ws ! i
                         \<and> snd (called w w' ! i)
                             = matcher env (match_funcs ! i) (utterances msg) lang)))"
  proof
    assume "transformers env msg0 = Inr msg
         \<and> disambiguate_lang cfg (get_message_lang env msg) (msg_context msg) = Inr lang"
    then have t: "transformers env msg0 = Inr msg"
      and l: "disambiguate_lang cfg (get_message_lang env msg) (msg_context msg) = Inr lang"
      by simp_all
    note hc = handle_utterance_chain [OF run t l]
    from hc(1) hc(2) hc(3)
    show "called w w' \<noteq> []
         \<and> (snd (last (called w w')) = Inr None \<longrightarrow> map fst (called w w') = match_funcs)
         \<and> (\<exists>ws. length ws = Suc (length (called w w')) \<and> ws ! 0 = w
           \<and> (\<forall>i < length (called w w'). \<exists>w2.
                 ws ! Suc i = w2\<lparr>calls := calls w2 @ [called w w' ! i]\<rparr>
                 \<and> (if i = 4 then fallback_range fcfg reg (skills env High_prio) (utterances msg)
                                    lang \<lparr>start = 0, stop = 5\<rparr> (ws ! i)
                                  = (snd (called w w' ! i), w2)
                    else if i = 6 then fallback_range fcfg reg (skills env Medium_prio)
                                    (utterances msg) lang \<lparr>start = 5, stop = 90\<rparr> (ws ! i)
                                  = (snd (called w w' ! i), w2)
                    else if i = 8 then fallback_range fcfg reg (skills env Low_prio)
                                    (utterances msg) lang \<lparr>start = 90, stop = 101\<rparr> (ws ! i)
                                  = (snd (called w w' ! i), w2)
                    else w2 = ws ! i
                         \<and> snd (called w w' ! i)
                             = matcher env (match_funcs ! i) (utterances msg) lang)))"
      by (intro conjI impI)
  qed
  from a b c(2) d k e mf ch show "(\<exists>n \<le> 9. map fst (called w w')
        = take n [Converse_with_skills, Match_high, Match_intent, Common_qa_match, High_prio,
                  Match_medium, Medium_prio, Match_low, Low_prio])
     \<and> distinct (map fst (called w w'))
     \<and> (\<forall>x \<in> set (butlast (called w w')). snd x = Inr None)
     \<and> (\<forall>m c. out = Returned (Some m) c \<longrightarrow>
           called w w' \<noteq> [] \<and> snd (last (called w w')) = Inr (Some m))
     \<and> ((\<exists>m. (Match_intent, Inr (Some m)) \<in> set (called w w')) \<longrightarrow>
           set (map fst (called w w')) \<subseteq> {Converse_with_skills, Match_high, Match_intent})
     \<and> ((\<forall>us lang. \<exists>m. matcher env Match_intent us lang = Inr (Some m)) \<longrightarrow>
           set (map fst (called w w')) \<subseteq> {Converse_with_skills, Match_high, Match_intent})
     \<and> match_funcs = [Converse_with_skills, Match_high, Match_intent, Common_qa_match, High_prio,
                       Match_medium, Medium_prio, Match_low, Low_prio]
     \<and> (transformers env msg0 = Inr msg
         \<and> disambiguate_lang cfg (get_message_lang env msg) (msg_context msg) = Inr lang \<longrightarrow>
         called w w' \<noteq> []
         \<and> (snd (last (called w w')) = Inr None \<longrightarrow> map fst (called w w') = match_funcs)
         \<and> (\<exists>ws. length ws = Suc (length (called w w')) \<and> ws ! 0 = w
           \<and> (\<forall>i < length (called w w'). \<exists>w2.
                 ws ! Suc i = w2\<lparr>calls := calls w2 @ [called w w' ! i]\<rparr>
                 \<and> (if i = 4 then fallback_range fcfg reg (skills env High_prio) (utterances msg)
                                    lang \<lparr>start = 0, stop = 5\<rparr> (ws ! i)
                                  = (snd (called w w' ! i), w2)
                    else if i = 6 then fallback_range fcfg reg (skills env Medium_prio)
                                    (utterances msg) lang \<lparr>start = 5, stop = 90\<rparr> (ws ! i)
                                  = (snd (called w w' ! i), w2)
                    else if i = 8 then fallback_range fcfg reg (skills env Low_prio)
                                    (utterances msg) lang \<lparr>start = 90, stop = 101\<rparr> (ws ! i)
                                  = (snd (called w w' ! i), w2)
                    else w2 = ws ! i
                         \<and> snd (called w w' ! i)
                             = matcher env (match_funcs ! i) (utterances msg) lang))))"
    by (intro conjI)
qed

theorem stages_in_fixed_order_witness:
  "fst (handle_utterance [(''lang'', PyStr ''en-us'')]
     \<lparr>fallback_priorities = [], fallback_mode = ACCEPT_ALL,
      fallback_blacklist = [], fallback_whitelist = []\<rparr>
     [(''A'', PyInt 2)]
     \<lparr>transformers = Inr, get_message_lang = (\<lambda>m. ''en-us''),
      matcher = (\<lambda>f us l. if f = Match_intent then Inr (Some \<lparr>intent_service = ''Adapt'', intent_type = Some ''weather:WeatherIntent'', intent_data = [], skill_id = Some ''weather''\<rparr>) else Inr None),
      skills = (\<lambda>f. \<lparr>discovery = (\<lambda>i. \<lparr>emit_raises = None, pong_batches = [[\<lparr>pong_skill_id = ''A'', can_handle = Some (PyBool True)\<rparr>]]\<rparr>),
      response = (\<lambda>s. Some [(''result'', PyBool True)]),
      legacy_response = None\<rparr>)\<rparr>
     \<lparr>utterances = [''what is the weather''], msg_context = []\<rparr>
     \<lparr>listeners = [], sent = [], activated = [], error_sounds = 0, calls = []\<rparr>)
     = Returned (Some \<lparr>intent_service = ''Adapt'', intent_type = Some ''weather:WeatherIntent'', intent_data = [], skill_id = Some ''weather''\<rparr>) []
   \<and> map fst (called \<lparr>listeners = [], sent = [], activated = [], error_sounds = 0, calls = []\<rparr>
        (snd (handle_utterance [(''lang'', PyStr ''en-us'')]
     \<lparr>fallback_priorities = [], fallback_mode = ACCEPT_ALL,
      fallback_blacklist = [], fallback_whitelist = []\<rparr>
     [(''A'', PyInt 2)]
     \<lparr>transformers = Inr, get_message_lang = (\<lambda>m. ''en-us''),
      matcher = (\<lambda>f us l. if f = Match_intent then Inr (Some \<lparr>intent_service = ''Adapt'', intent_type = Some ''weather:WeatherIntent'', intent_data = [], skill_id = Some ''weather''\<rparr>) else Inr None),
      skills = (\<lambda>f. \<lparr>discovery = (\<lambda>i. \<lparr>emit_raises = None, pong_batches = [[\<lparr>pong_skill_id = ''A'', can_handle = Some (PyBool True)\<rparr>]]\<rparr>),
      response = (\<lambda>s. Some [(''result'', PyBool True)]),
      legacy_response = None\<rparr>)\<rparr>
     \<lparr>utterances = [''what is the weather''], msg_context = []\<rparr>
     \<lparr>listeners = [], sent = [], activated = [], error_sounds = 0, calls = []\<rparr>)))
     = [Converse_with_skills, Match_high, Match_intent]
   \<and> fst (handle_utterance [(''lang'', PyStr ''en-us'')]
     \<lparr>fallback_priorities = [], fallback_mode = ACCEPT_ALL,
      fallback_blacklist = [], fallback_whitelist = []\<rparr>
     []
     \<lparr>transformers = Inr, get_message_lang = (\<lambda>m. ''en-us''),
      matcher = (\<lambda>f us l. Inr None),
      skills = (\<lambda>f. \<lparr>discovery = (\<lambda>i. \<lparr>emit_raises = None, pong_batches = []\<rparr>),
                     response = (\<lambda>s. None),
                     legacy_response = (if f = Low_prio then Some [(''handled'', PyBool True)]
                                        else None)\<rparr>)\<rparr>
     \<lparr>utterances = [''what is the weather''], msg_context = []\<rparr>
     \<lparr>listeners = [], sent = [], activated = [], error_sounds = 0, calls = []\<rparr>)
     = Returned (Some \<lparr>intent_service = ''Fallback'', intent_type = None, intent_data = [], skill_id = None\<rparr>) []
   \<and> called \<lparr>listeners = [], sent = [], activated = [], error_sounds = 0, calls = []\<rparr>
        (snd (handle_utterance [(''lang'', PyStr ''en-us'')]
     \<lparr>fallback_priorities = [], fallback_mode = ACCEPT_ALL,
      fallback_blacklist = [], fallback_whitelist = []\<rparr>
     []
     \<lparr>transformers = Inr, get_message_lang = (\<lambda>m. ''en-us''),
      matcher = (\<lambda>f us l. Inr None),
      skills = (\<lambda>f. \<lparr>discovery = (\<lambda>i. \<lparr>emit_raises = None, pong_batches = []\<rparr>),
                     response = (\<lambda>s. None),
                     legacy_response = (if f = Low_prio then Some [(''handled'', PyBool True)]
                                        else None)\<rparr>)\<rparr>
     \<lparr>utterances = [''what is the weather''], msg_context = []\<rparr>
     \<lparr>listeners = [], sent = [], activated = [], error_sounds = 0, calls = []\<rparr>))
     = [(Converse_with_skills, Inr None), (Match_high, Inr None), (Match_intent, Inr None),
        (Common_qa_match, Inr None), (High_prio, Inr None), (Match_medium, Inr None),
        (Medium_prio, Inr None), (Match_low, Inr None),
        (Low_prio, Inr (Some \<lparr>intent_service = ''Fallback'', intent_type = None, intent_data = [], skill_id = None\<rparr>))]"
proof -
  have h: "transformers \<lparr>transformers = Inr, get_message_lang = (\<lambda>m. ''en-us''),
      matcher = (\<lambda>f us l. Inr None),
      skills = (\<lambda>f. \<lparr>discovery = (\<lambda>i. \<lparr>emit_raises = None, pong_batches = []\<rparr>),
                     response = (\<lambda>s. None),
                     legacy_response = (if f = Low_prio then Some [(''handled'', PyBool True)]
                                        else None)\<rparr>)\<rparr>
       \<lparr>utterances = [''what is the weather''], msg_context = []\<rparr>
     = Inr \<lparr>utterances = [''what is the weather''], msg_context = []\<rparr>
     \<and> disambiguate_lang [(''lang'', PyStr ''en-us'')]
         (get_message_lang \<lparr>transformers = Inr, get_message_lang = (\<lambda>m. ''en-us''),
      matcher = (\<lambda>f us l. Inr None),
      skills = (\<lambda>f. \<lparr>discovery = (\<lambda>i. \<lparr>emit_raises = None, pong_batches = []\<rparr>),
                     response = (\<lambda>s. None),
                     legacy_response = (if f = Low_prio then Some [(''handled'', PyBool True)]
                                        else None)\<rparr>)\<rparr>
            \<lparr>utterances = [''what is the weather''], msg_context = []\<rparr>)
         (msg_context \<lparr>utterances = [''what is the weather''], msg_context = []\<rparr>)
       = Inr ''en-us''"
    by (simp add: eval_defs)
  note stops = stages_in_fixed_order [where cfg = "[(''lang'', PyStr ''en-us'')]"
      and fcfg = "\<lparr>fallback_priorities = [], fallback_mode = ACCEPT_ALL,
      fallback_blacklist = [], fallback_whitelist = []\<rparr>"
      and reg = "[(''A'', PyInt 2)]"
      and env = "\<lparr>transformers = Inr, get_message_lang = (\<lambda>m. ''en-us''),
      matcher = (\<lambda>f us l. if f = Match_intent then Inr (Some \<lparr>intent_service = ''Adapt'', intent_type = Some ''weather:WeatherIntent'', intent_data = [], skill_id = Some ''weather''\<rparr>) else Inr None),
      skills = (\<lambda>f. \<lparr>discovery = (\<lambda>i. \<lparr>emit_raises = None, pong_batches = [[\<lparr>pong_skill_id = ''A'', can_handle = Some (PyBool True)\<rparr>]]\<rparr>),
      response = (\<lambda>s. Some [(''result'', PyBool True)]),
      legacy_response = None\<rparr>)\<rparr>"
      and ?msg0.0 = "\<lparr>utterances = [''what is the weather''], msg_context = []\<rparr>"
      and msg = "\<lparr>utterances = [''what is the weather''], msg_context = []\<rparr>" and lang = "''en-us''"
      and w = "\<lparr>listeners = [], sent = [], activated = [], error_sounds = 0, calls = []\<rparr>"
      and out = "fst (handle_utterance [(''lang'', PyStr ''en-us'')]
     \<lparr>fallback_priorities = [], fallback_mode = ACCEPT_ALL,
      fallback_blacklist = [], fallback_whitelist = []\<rparr>
     [(''A'', PyInt 2)]
     \<lparr>transformers = Inr, get_message_lang = (\<lambda>m. ''en-us''),
      matcher = (\<lambda>f us l. if f = Match_intent then Inr (Some \<lparr>intent_service = ''Adapt'', intent_type = Some ''weather:WeatherIntent'', intent_data = [], skill_id = Some ''weather''\<rparr>) else Inr None),
      skills = (\<lambda>f. \<lparr>discovery = (\<lambda>i. \<lparr>emit_raises = None, pong_batches = [[\<lparr>pong_skill_id = ''A'', can_handle = Some (PyBool True)\<rparr>]]\<rparr>),
      response = (\<lambda>s. Some [(''result'', PyBool True)]),
      legacy_response = None\<rparr>)\<rparr>
     \<lparr>utterances = [''what is the weather''], msg_context = []\<rparr>
     \<lparr>listeners = [], sent = [], activated = [], error_sounds = 0, calls = []\<rparr>)"
      and w' = "snd (handle_utterance [(''lang'', PyStr ''en-us'')]
     \<lparr>fallback_priorities = [], fallback_mode = ACCEPT_ALL,
      fallback_blacklist = [], fallback_whitelist = []\<rparr>
     [(''A'', PyInt 2)]
     \<lparr>transformers = Inr, get_message_lang = (\<lambda>m. ''en-us''),
      matcher = (\<lambda>f us l. if f = Match_intent then Inr (Some \<lparr>intent_service = ''Adapt'', intent_type = Some ''weather:WeatherIntent'', intent_data = [], skill_id = Some ''weather''\<rparr>) else Inr None),
      skills = (\<lambda>f. \<lparr>discovery = (\<lambda>i. \<lparr>emit_raises = None, pong_batches = [[\<lparr>pong_skill_id = ''A'', can_handle = Some (PyBool True)\<rparr>]]\<rparr>),
      response = (\<lambda>s. Some [(''result'', PyBool True)]),
      legacy_response = None\<rparr>)\<rparr>
     \<lparr>utterances = [''what is the weather''], msg_context = []\<rparr>
     \<lparr>listeners = [], sent = [], activated = [], error_sounds = 0, calls = []\<rparr>)",
      THEN mp, OF prod.collapse [symmetric], THEN conjunct1]
  note goes_on = stages_in_fixed_order [where cfg = "[(''lang'', PyStr ''en-us'')]"
      and fcfg = "\<lparr>fallback_priorities = [], fallback_mode = ACCEPT_ALL,
      fallback_blacklist = [], fallback_whitelist = []\<rparr>"
      and reg = "[]"
      and env = "\<lparr>transformers = Inr, get_message_lang = (\<lambda>m. ''en-us''),
      matcher = (\<lambda>f us l. Inr None),
      skills = (\<lambda>f. \<lparr>discovery = (\<lambda>i. \<lparr>emit_raises = None, pong_batches = []\<rparr>),
                     response = (\<lambda>s. None),
                     legacy_response = (if f = Low_prio then Some [(''handled'', PyBool True)]
                                        else None)\<rparr>)\<rparr>"
      and ?msg0.0 = "\<lparr>utterances = [''what is the weather''], msg_context = []\<rparr>"
      and msg = "\<lparr>utterances = [''what is the weather''], msg_context = []\<rparr>" and lang = "''en-us''"
      and w = "\<lparr>listeners = [], sent = [], activated = [], error_sounds = 0, calls = []\<rparr>"
      and out = "fst (handle_utterance [(''lang'', PyStr ''en-us'')]
     \<lparr>fallback_priorities = [], fallback_mode = ACCEPT_ALL,
      fallback_blacklist = [], fallback_whitelist = []\<rparr>
     []
     \<lparr>transformers = Inr, get_message_lang = (\<lambda>m. ''en-us''),
      matcher = (\<lambda>f us l. Inr None),
      skills = (\<lambda>f. \<lparr>discovery = (\<lambda>i. \<lparr>emit_raises = None, pong_batches = []\<rparr>),
                     response = (\<lambda>s. None),
                     legacy_response = (if f = Low_prio then Some [(''handled'', PyBool True)]
                                        else None)\<rparr>)\<rparr>
     \<lparr>utterances = [''what is the weather''], msg_context = []\<rparr>
     \<lparr>listeners = [], sent = [], activated = [], error_sounds = 0, calls = []\<rparr>)"
      and w' = "snd (handle_utterance [(''lang'', PyStr ''en-us'')]
     \<lparr>fallback_priorities = [], fallback_mode = ACCEPT_ALL,
      fallback_blacklist = [], fallback_whitelist = []\<rparr>
     []
     \<lparr>transformers = Inr, get_message_lang = (\<lambda>m. ''en-us''),
      matcher = (\<lambda>f us l. Inr None),
      skills = (\<lambda>f. \<lparr>discovery = (\<lambda>i. \<lparr>emit_raises = None, pong_batches = []\<rparr>),
                     response = (\<lambda>s. None),
                     legacy_response = (if f = Low_prio then Some [(''handled'', PyBool True)]
                                        else None)\<rparr>)\<rparr>
     \<lparr>utterances = [''what is the weather''], msg_context = []\<rparr>
     \<lparr>listeners = [], sent = [], activated = [], error_sounds = 0, calls = []\<rparr>)",
      THEN mp, OF prod.collapse [symmetric], THEN conjunct2, THEN conjunct2, THEN conjunct2,
      THEN conjunct2, THEN conjunct2, THEN conjunct2, THEN conjunct2, THEN mp, OF h,
      THEN conjunct1]
  show ?thesis
    using stops goes_on by (simp add: eval_defs)
qed




text \<open>
  Claim C3 says that a registered skill whose priority is outside the band is never sent
  a request of its own for that band, whatever it answers to the ping. The code does
  send one: \<open>handle_ack\<close> tests \<open>skill_id in self.registered_fallbacks\<close>, not membership
  in \<open>in_range\<close>. Here the skill A is registered with priority 50, the band is \<open>(0, 5]\<close>,
  and A answers the ping with \<open>can_handle = True\<close>: A is sent the request and its answer
  is taken as the match of the band.
\<close>

theorem out_of_band_handler_is_requested:
  "in_band \<lparr>start = 0, stop = 5\<rparr> (PyInt 50) = Inr False
   \<and> fallback_range
     \<lparr>fallback_priorities = [], fallback_mode = ACCEPT_ALL,
      fallback_blacklist = [], fallback_whitelist = []\<rparr>
     [(''A'', PyInt 50)]
     \<lparr>discovery = (\<lambda>i. \<lparr>emit_raises = None, pong_batches = [[\<lparr>pong_skill_id = ''A'', can_handle = Some (PyBool True)\<rparr>]]\<rparr>),
      response = (\<lambda>s. Some [(''result'', PyBool True)]),
      legacy_response = None\<rparr>
     [''hello''] ''en-us'' \<lparr>start = 0, stop = 5\<rparr>
     \<lparr>listeners = [], sent = [], activated = [], error_sounds = 0, calls = []\<rparr>
     = (Inr (Some fallback_match),
        \<lparr>listeners = [],
         sent = [Fallback_ping [''hello''] ''en-us'',
                 Fallback_request ''A'' [''hello''] ''hello'' ''en-us''],
         activated = [], error_sounds = 0, calls = []\<rparr>)"
  by (simp add: eval_defs)

text \<open>
  Claim C4. Deregistering an id that is not registered leaves the registry as it is, so
  a second deregistration in a row changes nothing. Registering an id again stores the
  priority of the new registration (\<open>priority or 101\<close>) in place of the old one. When the
  configuration overrides the priority of an id, every registration of that id stores
  the override, whatever priority the skill reports and whatever was registered before
  or is registered after; with the override 3 a skill that reports 50 is in the band
  \<open>(0, 5]\<close>.
\<close>

theorem registry_semantics:
  "(sid \<notin> set (dict_keys reg) \<longrightarrow> handle_deregister_fallback sid reg = reg)
   \<and> handle_deregister_fallback sid (handle_deregister_fallback sid reg)
       = handle_deregister_fallback sid reg
   \<and> (dict_get (fallback_priorities cfg) sid = None \<longrightarrow>
        dict_get (handle_register_fallback cfg sid p_new
                    (handle_register_fallback cfg sid p_old reg)) sid
          = Some (py_or p_new (PyInt 101)))
   \<and> (dict_get (fallback_priorities cfg) sid = None \<and> truthy v \<longrightarrow>
        dict_get (handle_register_fallback cfg sid (Some v)
                    (handle_register_fallback cfg sid p_old reg)) sid = Some v)
   \<and> (dict_get (fallback_priorities cfg) sid = Some forced \<longrightarrow>
        dict_get (handle_register_fallback cfg sid p reg) sid = Some forced
        \<and> dict_get (handle_register_fallback cfg sid' p'
                      (handle_register_fallback cfg sid p reg)) sid = Some forced
        \<and> dict_get (handle_register_fallback cfg sid p
                      (handle_register_fallback cfg sid' p' reg)) sid = Some forced)
   \<and> (dict_get (fallback_priorities cfg) sid = Some (PyInt 3) \<longrightarrow>
        (\<exists>stored. dict_get (handle_register_fallback cfg sid (Some (PyInt 50)) reg) sid = Some stored
           \<and> in_band \<lparr>start = 0, stop = 5\<rparr> stored = Inr True))"
proof (intro conjI impI)
  show "handle_deregister_fallback sid (handle_deregister_fallback sid reg)
       = handle_deregister_fallback sid reg"
    by (rule deregister_absent) (rule deregister_removes)
next
  assume "dict_get (fallback_priorities cfg) sid = Some forced"
  then show "dict_get (handle_register_fallback cfg sid' p'
                      (handle_register_fallback cfg sid p reg)) sid = Some forced"
    by (cases "sid' = sid") (simp_all add: register_stores register_other)
qed (simp_all add: register_stores deregister_absent py_or_def in_band_def)

theorem registry_semantics_witness:
  "handle_deregister_fallback ''H'' [(''G'', PyInt 7)] = [(''G'', PyInt 7)]
   \<and> handle_deregister_fallback ''H''
        (handle_deregister_fallback ''H'' [(''H'', PyInt 50), (''G'', PyInt 7)]) = [(''G'', PyInt 7)]
   \<and> dict_get (handle_register_fallback
                 \<lparr>fallback_priorities = [], fallback_mode = ACCEPT_ALL,
                  fallback_blacklist = [], fallback_whitelist = []\<rparr> ''H'' (Some (PyInt 4))
                 (handle_register_fallback
                    \<lparr>fallback_priorities = [], fallback_mode = ACCEPT_ALL,
                     fallback_blacklist = [], fallback_whitelist = []\<rparr> ''H'' (Some (PyInt 50)) []))
        ''H'' = Some (PyInt 4)
   \<and> dict_get (handle_register_fallback
                 \<lparr>fallback_priorities = [(''H'', PyInt 3)], fallback_mode = ACCEPT_ALL,
                  fallback_blacklist = [], fallback_whitelist = []\<rparr> ''H'' (Some (PyInt 50)) [])
        ''H'' = Some (PyInt 3)
   \<and> in_band \<lparr>start = 0, stop = 5\<rparr> (PyInt 3) = Inr True"
  using registry_semantics [of "''H''" "[(''G'', PyInt 7)]"
          "\<lparr>fallback_priorities = [], fallback_mode = ACCEPT_ALL,
            fallback_blacklist = [], fallback_whitelist = []\<rparr>"
          "Some (PyInt 4)" "Some (PyInt 50)" "PyInt 4" "PyInt 3" "Some (PyInt 50)" "''G''" None]
        registry_semantics [of "''H''" "[]"
          "\<lparr>fallback_priorities = [(''H'', PyInt 3)], fallback_mode = ACCEPT_ALL,
            fallback_blacklist = [], fallback_whitelist = []\<rparr>"
          "Some (PyInt 4)" "Some (PyInt 50)" "PyInt 4" "PyInt 3" "Some (PyInt 50)" "''G''" None]
  by (simp add: handle_deregister_fallback_def handle_register_fallback_def dict_keys_def
        dict_pop_def dict_get_def py_or_def in_band_def)

text \<open>
  Claim C5 says that a value of the context is valid when it is the default language or
  one of the configured \<open>secondary_langs\<close>. The code reads the secondary languages under
  the key \<open>secondary_langs'\<close>, with a quote inside the string, so the entry
  \<open>secondary_langs\<close> of the configuration is never read: whatever it holds, the result
  is the same. With the configuration \<open>{lang: en-us, secondary_langs: [pt-pt]}\<close>, the
  context \<open>{stt_lang: pt-pt}\<close> and the message language \<open>en-us\<close>, the code returns
  \<open>en-us\<close>.
\<close>

theorem secondary_langs_not_read:
  "disambiguate_lang (dict_set ''secondary_langs'' v cfg) default_lang ctx
     = disambiguate_lang cfg default_lang ctx
   \<and> disambiguate_lang
         [(''lang'', PyStr ''en-us''), (''secondary_langs'', PyList [PyStr ''pt-pt''])]
         ''en-us'' [(''stt_lang'', ''pt-pt'')]
       = Inr ''en-us''"
proof
  have "dict_get (dict_set ''secondary_langs'' v cfg) secondary_langs_key
          = dict_get cfg secondary_langs_key"
    by (simp add: dict_get_dict_set secondary_langs_key_def)
  moreover have "dict_get (dict_set ''secondary_langs'' v cfg) ''lang'' = dict_get cfg ''lang''"
    by (simp add: dict_get_dict_set)
  ultimately show "disambiguate_lang (dict_set ''secondary_langs'' v cfg) default_lang ctx
     = disambiguate_lang cfg default_lang ctx"
    by (simp only: disambiguate_lang_def)
  show "disambiguate_lang
         [(''lang'', PyStr ''en-us''), (''secondary_langs'', PyList [PyStr ''pt-pt''])]
         ''en-us'' [(''stt_lang'', ''pt-pt'')]
       = Inr ''en-us''"
    by (simp add: eval_defs)
qed

text \<open>
  Claim C6. A match returned by \<open>_fallback_range\<close> is always
  \<open>IntentMatch('Fallback', None, {}, None)\<close>: it names no skill. When a skill that was
  sent a request answers with a true \<open>result\<close> and no \<open>error\<close>, that request is the last
  message of the call (no other skill is asked, nor the old-style handler) and the call
  returns the match. In the scenario where every matcher declines and the registry holds
  A with priority 2, which answers \<open>result = False\<close>, and B with priority 4, which answers
  \<open>result = True\<close>, \<open>handle_utterance\<close> returns that match, A is sent its request before
  B, and no function after \<open>fallback.high_prio\<close> is called. That is so whichever of the
  two registered first: with B first in the registry it is the sort by priority that
  puts A in front.
\<close>

theorem handled_reply_stops_band:
  "(fallback_range cfg reg env us lang r w = (res, w') \<longrightarrow>
      (\<forall>m. res = Inr (Some m) \<longrightarrow>
         m = \<lparr>intent_service = ''Fallback'', intent_type = None, intent_data = [],
               skill_id = None\<rparr>)
      \<and> (\<forall>h data v. h \<in> set (requested (emitted w w')) \<and> response env h = Some data
            \<and> ''error'' \<notin> set (dict_keys data) \<and> dict_get data ''result'' = Some v \<and> truthy v
          \<longrightarrow> res = Inr (Some fallback_match)
              \<and> (\<exists>ms. emitted w w' = ms @ [Fallback_request h us (hd us) lang])))
   \<and> (fst (handle_utterance [(''lang'', PyStr ''en-us'')]
     \<lparr>fallback_priorities = [], fallback_mode = ACCEPT_ALL,
      fallback_blacklist = [], fallback_whitelist = []\<rparr>
     [(''A'', PyInt 2), (''B'', PyInt 4)]
     \<lparr>transformers = Inr, get_message_lang = (\<lambda>m. ''en-us''),
      matcher = (\<lambda>f us l. Inr None),
      skills = (\<lambda>f. \<lparr>discovery = (\<lambda>i. \<lparr>emit_raises = None, pong_batches = [[\<lparr>pong_skill_id = ''A'', can_handle = Some (PyBool True)\<rparr>, \<lparr>pong_skill_id = ''B'', can_handle = Some (PyBool True)\<rparr>]]\<rparr>),
      response = (\<lambda>s. if s = ''A'' then Some [(''result'', PyBool False)] else if s = ''B'' then Some [(''result'', PyBool True)] else None),
      legacy_response = None\<rparr>)\<rparr>
     \<lparr>utterances = [''what is the weather''], msg_context = []\<rparr>
     \<lparr>listeners = [], sent = [], activated = [], error_sounds = 0, calls = []\<rparr>)
       = Returned (Some \<lparr>intent_service = ''Fallback'', intent_type = None, intent_data = [], skill_id = None\<rparr>) []
     \<and> requested (emitted \<lparr>listeners = [], sent = [], activated = [], error_sounds = 0, calls = []\<rparr>
         (snd (handle_utterance [(''lang'', PyStr ''en-us'')]
     \<lparr>fallback_priorities = [], fallback_mode = ACCEPT_ALL,
      fallback_blacklist = [], fallback_whitelist = []\<rparr>
     [(''A'', PyInt 2), (''B'', PyInt 4)]
     \<lparr>transformers = Inr, get_message_lang = (\<lambda>m. ''en-us''),
      matcher = (\<lambda>f us l. Inr None),
      skills = (\<lambda>f. \<lparr>discovery = (\<lambda>i. \<lparr>emit_raises = None, pong_batches = [[\<lparr>pong_skill_id = ''A'', can_handle = Some (PyBool True)\<rparr>, \<lparr>pong_skill_id = ''B'', can_handle = Some (PyBool True)\<rparr>]]\<rparr>),
      response = (\<lambda>s. if s = ''A'' then Some [(''result'', PyBool False)] else if s = ''B'' then Some [(''result'', PyBool True)] else None),
      legacy_response = None\<rparr>)\<rparr>
     \<lparr>utterances = [''what is the weather''], msg_context = []\<rparr>
     \<lparr>listeners = [], sent = [], activated = [], error_sounds = 0, calls = []\<rparr>)))
       = [''A'', ''B'']
     \<and> map fst (called \<lparr>listeners = [], sent = [], activated = [], error_sounds = 0, calls = []\<rparr>
         (snd (handle_utterance [(''lang'', PyStr ''en-us'')]
     \<lparr>fallback_priorities = [], fallback_mode = ACCEPT_ALL,
      fallback_blacklist = [], fallback_whitelist = []\<rparr>
     [(''A'', PyInt 2), (''B'', PyInt 4)]
     \<lparr>transformers = Inr, get_message_lang = (\<lambda>m. ''en-us''),
      matcher = (\<lambda>f us l. Inr None),
      skills = (\<lambda>f. \<lparr>discovery = (\<lambda>i. \<lparr>emit_raises = None, pong_batches = [[\<lparr>pong_skill_id = ''A'', can_handle = Some (PyBool True)\<rparr>, \<lparr>pong_skill_id = ''B'', can_handle = Some (PyBool True)\<rparr>]]\<rparr>),
      response = (\<lambda>s. if s = ''A'' then Some [(''result'', PyBool False)] else if s = ''B'' then Some [(''result'', PyBool True)] else None),
      legacy_response = None\<rparr>)\<rparr>
     \<lparr>utterances = [''what is the weather''], msg_context = []\<rparr>
     \<lparr>listeners = [], sent = [], activated = [], error_sounds = 0, calls = []\<rparr>)))
       = [Converse_with_skills, Match_high, Match_intent, Common_qa_match, High_prio]
     \<and> fst (handle_utterance [(''lang'', PyStr ''en-us'')]
     \<lparr>fallback_priorities = [], fallback_mode = ACCEPT_ALL,
      fallback_blacklist = [], fallback_whitelist = []\<rparr>
     [(''B'', PyInt 4), (''A'', PyInt 2)]
     \<lparr>transformers = Inr, get_message_lang = (\<lambda>m. ''en-us''),
      matcher = (\<lambda>f us l. Inr None),
      skills = (\<lambda>f. \<lparr>discovery = (\<lambda>i. \<lparr>emit_raises = None, pong_batches = [[\<lparr>pong_skill_id = ''A'', can_handle = Some (PyBool True)\<rparr>, \<lparr>pong_skill_id = ''B'', can_handle = Some (PyBool True)\<rparr>]]\<rparr>),
      response = (\<lambda>s. if s = ''A'' then Some [(''result'', PyBool False)] else if s = ''B'' then Some [(''result'', PyBool True)] else None),
      legacy_response = None\<rparr>)\<rparr>
     \<lparr>utterances = [''what is the weather''], msg_context = []\<rparr>
     \<lparr>listeners = [], sent = [], activated = [], error_sounds = 0, calls = []\<rparr>)
       = Returned (Some \<lparr>intent_service = ''Fallback'', intent_type = None, intent_data = [], skill_id = None\<rparr>) []
     \<and> requested (emitted \<lparr>listeners = [], sent = [], activated = [], error_sounds = 0, calls = []\<rparr>
         (snd (handle_utterance [(''lang'', PyStr ''en-us'')]
     \<lparr>fallback_priorities = [], fallback_mode = ACCEPT_ALL,
      fallback_blacklist = [], fallback_whitelist = []\<rparr>
     [(''B'', PyInt 4), (''A'', PyInt 2)]
     \<lparr>transformers = Inr, get_message_lang = (\<lambda>m. ''en-us''),
      matcher = (\<lambda>f us l. Inr None),
      skills = (\<lambda>f. \<lparr>discovery = (\<lambda>i. \<lparr>emit_raises = None, pong_batches = [[\<lparr>pong_skill_id = ''A'', can_handle = Some (PyBool True)\<rparr>, \<lparr>pong_skill_id = ''B'', can_handle = Some (PyBool True)\<rparr>]]\<rparr>),
      response = (\<lambda>s. if s = ''A'' then Some [(''result'', PyBool False)] else if s = ''B'' then Some [(''result'', PyBool True)] else None),
      legacy_response = None\<rparr>)\<rparr>
     \<lparr>utterances = [''what is the weather''], msg_context = []\<rparr>
     \<lparr>listeners = [], sent = [], activated = [], error_sounds = 0, calls = []\<rparr>)))
       = [''A'', ''B'']
     \<and> map fst (called \<lparr>listeners = [], sent = [], activated = [], error_sounds = 0, calls = []\<rparr>
         (snd (handle_utterance [(''lang'', PyStr ''en-us'')]
     \<lparr>fallback_priorities = [], fallback_mode = ACCEPT_ALL,
      fallback_blacklist = [], fallback_whitelist = []\<rparr>
     [(''B'', PyInt 4), (''A'', PyInt 2)]
     \<lparr>transformers = Inr, get_message_lang = (\<lambda>m. ''en-us''),
      matcher = (\<lambda>f us l. Inr None),
      skills = (\<lambda>f. \<lparr>discovery = (\<lambda>i. \<lparr>emit_raises = None, pong_batches = [[\<lparr>pong_skill_id = ''A'', can_handle = Some (PyBool True)\<rparr>, \<lparr>pong_skill_id = ''B'', can_handle = Some (PyBool True)\<rparr>]]\<rparr>),
      response = (\<lambda>s. if s = ''A'' then Some [(''result'', PyBool False)] else if s = ''B'' then Some [(''result'', PyBool True)] else None),
      legacy_response = None\<rparr>)\<rparr>
     \<lparr>utterances = [''what is the weather''], msg_context = []\<rparr>
     \<lparr>listeners = [], sent = [], activated = [], error_sounds = 0, calls = []\<rparr>)))
       = [Converse_with_skills, Match_high, Match_intent, Common_qa_match, High_prio])"
proof (rule conjI)
  show "fallback_range cfg reg env us lang r w = (res, w') \<longrightarrow>
      (\<forall>m. res = Inr (Some m) \<longrightarrow>
         m = \<lparr>intent_service = ''Fallback'', intent_type = None, intent_data = [],
               skill_id = None\<rparr>)
      \<and> (\<forall>h data v. h \<in> set (requested (emitted w w')) \<and> response env h = Some data
            \<and> ''error'' \<notin> set (dict_keys data) \<and> dict_get data ''result'' = Some v \<and> truthy v
          \<longrightarrow> res = Inr (Some fallback_match)
              \<and> (\<exists>ms. emitted w w' = ms @ [Fallback_request h us (hd us) lang]))"
  proof
    assume run: "fallback_range cfg reg env us lang r w = (res, w')"
    have a: "\<forall>m. res = Inr (Some m) \<longrightarrow>
           m = \<lparr>intent_service = ''Fallback'', intent_type = None, intent_data = [],
                 skill_id = None\<rparr>"
      using fallback_range_match [OF run] by (simp add: fallback_match_def)
    have b: "\<forall>h data v. h \<in> set (requested (emitted w w')) \<and> response env h = Some data
              \<and> ''error'' \<notin> set (dict_keys data) \<and> dict_get data ''result'' = Some v \<and> truthy v
            \<longrightarrow> res = Inr (Some fallback_match)
                \<and> (\<exists>ms. emitted w w' = ms @ [Fallback_request h us (hd us) lang])"
    proof (intro allI impI)
      fix h data v
      assume h: "h \<in> set (requested (emitted w w')) \<and> response env h = Some data
              \<and> ''error'' \<notin> set (dict_keys data) \<and> dict_get data ''result'' = Some v \<and> truthy v"
      then have nd: "\<not> declines (response env h)" by (simp add: declines_def)
      from h have "h \<in> set (requested (emitted w w'))" ..
      from handled_request_is_last [OF run this nd]
      show "res = Inr (Some fallback_match)
                \<and> (\<exists>ms. emitted w w' = ms @ [Fallback_request h us (hd us) lang])"
        by (simp add: request_def)
    qed
    from a b show "(\<forall>m. res = Inr (Some m) \<longrightarrow>
           m = \<lparr>intent_service = ''Fallback'', intent_type = None, intent_data = [],
                 skill_id = None\<rparr>)
        \<and> (\<forall>h data v. h \<in> set (requested (emitted w w')) \<and> response env h = Some data
              \<and> ''error'' \<notin> set (dict_keys data) \<and> dict_get data ''result'' = Some v \<and> truthy v
            \<longrightarrow> res = Inr (Some fallback_match)
                \<and> (\<exists>ms. emitted w w' = ms @ [Fallback_request h us (hd us) lang]))" ..
  qed
  show "(fst (handle_utterance [(''lang'', PyStr ''en-us'')]
     \<lparr>fallback_priorities = [], fallback_mode = ACCEPT_ALL,
      fallback_blacklist = [], fallback_whitelist = []\<rparr>
     [(''A'', PyInt 2), (''B'', PyInt 4)]
     \<lparr>transformers = Inr, get_message_lang = (\<lambda>m. ''en-us''),
      matcher = (\<lambda>f us l. Inr None),
      skills = (\<lambda>f. \<lparr>discovery = (\<lambda>i. \<lparr>emit_raises = None, pong_batches = [[\<lparr>pong_skill_id = ''A'', can_handle = Some (PyBool True)\<rparr>, \<lparr>pong_skill_id = ''B'', can_handle = Some (PyBool True)\<rparr>]]\<rparr>),
      response = (\<lambda>s. if s = ''A'' then Some [(''result'', PyBool False)] else if s = ''B'' then Some [(''result'', PyBool True)] else None),
      legacy_response = None\<rparr>)\<rparr>
     \<lparr>utterances = [''what is the weather''], msg_context = []\<rparr>
     \<lparr>listeners = [], sent = [], activated = [], error_sounds = 0, calls = []\<rparr>)
       = Returned (Some \<lparr>intent_service = ''Fallback'', intent_type = None, intent_data = [], skill_id = None\<rparr>) []
     \<and> requested (emitted \<lparr>listeners = [], sent = [], activated = [], error_sounds = 0, calls = []\<rparr>
         (snd (handle_utterance [(''lang'', PyStr ''en-us'')]
     \<lparr>fallback_priorities = [], fallback_mode = ACCEPT_ALL,
      fallback_blacklist = [], fallback_whitelist = []\<rparr>
     [(''A'', PyInt 2), (''B'', PyInt 4)]
     \<lparr>transformers = Inr, get_message_lang = (\<lambda>m. ''en-us''),
      matcher = (\<lambda>f us l. Inr None),
      skills = (\<lambda>f. \<lparr>discovery = (\<lambda>i. \<lparr>emit_raises = None, pong_batches = [[\<lparr>pong_skill_id = ''A'', can_handle = Some (PyBool True)\<rparr>, \<lparr>pong_skill_id = ''B'', can_handle = Some (PyBool True)\<rparr>]]\<rparr>),
      response = (\<lambda>s. if s = ''A'' then Some [(''result'', PyBool False)] else if s = ''B'' then Some [(''result'', PyBool True)] else None),
      legacy_response = None\<rparr>)\<rparr>
     \<lparr>utterances = [''what is the weather''], msg_context = []\<rparr>
     \<lparr>listeners = [], sent = [], activated = [], error_sounds = 0, calls = []\<rparr>)))
       = [''A'', ''B'']
     \<and> map fst (called \<lparr>listeners = [], sent = [], activated = [], error_sounds = 0, calls = []\<rparr>
         (snd (handle_utterance [(''lang'', PyStr ''en-us'')]
     \<lparr>fallback_priorities = [], fallback_mode = ACCEPT_ALL,
      fallback_blacklist = [], fallback_whitelist = []\<rparr>
     [(''A'', PyInt 2), (''B'', PyInt 4)]
     \<lparr>transformers = Inr, get_message_lang = (\<lambda>m. ''en-us''),
      matcher = (\<lambda>f us l. Inr None),
      skills = (\<lambda>f. \<lparr>discovery = (\<lambda>i. \<lparr>emit_raises = None, pong_batches = [[\<lparr>pong_skill_id = ''A'', can_handle = Some (PyBool True)\<rparr>, \<lparr>pong_skill_id = ''B'', can_handle = Some (PyBool True)\<rparr>]]\<rparr>),
      response = (\<lambda>s. if s = ''A'' then Some [(''result'', PyBool False)] else if s = ''B'' then Some [(''result'', PyBool True)] else None),
      legacy_response = None\<rparr>)\<rparr>
     \<lparr>utterances = [''what is the weather''], msg_context = []\<rparr>
     \<lparr>listeners = [], sent = [], activated = [], error_sounds = 0, calls = []\<rparr>)))
       = [Converse_with_skills, Match_high, Match_intent, Common_qa_match, High_prio]
     \<and> fst (handle_utterance [(''lang'', PyStr ''en-us'')]
     \<lparr>fallback_priorities = [], fallback_mode = ACCEPT_ALL,
      fallback_blacklist = [], fallback_whitelist = []\<rparr>
     [(''B'', PyInt 4), (''A'', PyInt 2)]
     \<lparr>transformers = Inr, get_message_lang = (\<lambda>m. ''en-us''),
      matcher = (\<lambda>f us l. Inr None),
      skills = (\<lambda>f. \<lparr>discovery = (\<lambda>i. \<lparr>emit_raises = None, pong_batches = [[\<lparr>pong_skill_id = ''A'', can_handle = Some (PyBool True)\<rparr>, \<lparr>pong_skill_id = ''B'', can_handle = Some (PyBool True)\<rparr>]]\<rparr>),
      response = (\<lambda>s. if s = ''A'' then Some [(''result'', PyBool False)] else if s = ''B'' then Some [(''result'', PyBool True)] else None),
      legacy_response = None\<rparr>)\<rparr>
     \<lparr>utterances = [''what is the weather''], msg_context = []\<rparr>
     \<lparr>listeners = [], sent = [], activated = [], error_sounds = 0, calls = []\<rparr>)
       = Returned (Some \<lparr>intent_service = ''Fallback'', intent_type = None, intent_data = [], skill_id = None\<rparr>) []
     \<and> requested (emitted \<lparr>listeners = [], sent = [], activated = [], error_sounds = 0, calls = []\<rparr>
         (snd (handle_utterance [(''lang'', PyStr ''en-us'')]
     \<lparr>fallback_priorities = [], fallback_mode = ACCEPT_ALL,
      fallback_blacklist = [], fallback_whitelist = []\<rparr>
     [(''B'', PyInt 4), (''A'', PyInt 2)]
     \<lparr>transformers = Inr, get_message_lang = (\<lambda>m. ''en-us''),
      matcher = (\<lambda>f us l. Inr None),
      skills = (\<lambda>f. \<lparr>discovery = (\<lambda>i. \<lparr>emit_raises = None, pong_batches = [[\<lparr>pong_skill_id = ''A'', can_handle = Some (PyBool True)\<rparr>, \<lparr>pong_skill_id = ''B'', can_handle = Some (PyBool True)\<rparr>]]\<rparr>),
      response = (\<lambda>s. if s = ''A'' then Some [(''result'', PyBool False)] else if s = ''B'' then Some [(''result'', PyBool True)] else None),
      legacy_response = None\<rparr>)\<rparr>
     \<lparr>utterances = [''what is the weather''], msg_context = []\<rparr>
     \<lparr>listeners = [], sent = [], activated = [], error_sounds = 0, calls = []\<rparr>)))
       = [''A'', ''B'']
     \<and> map fst (called \<lparr>listeners = [], sent = [], activated = [], error_sounds = 0, calls = []\<rparr>
         (snd (handle_utterance [(''lang'', PyStr ''en-us'')]
     \<lparr>fallback_priorities = [], fallback_mode = ACCEPT_ALL,
      fallback_blacklist = [], fallback_whitelist = []\<rparr>
     [(''B'', PyInt 4), (''A'', PyInt 2)]
     \<lparr>transformers = Inr, get_message_lang = (\<lambda>m. ''en-us''),
      matcher = (\<lambda>f us l. Inr None),
      skills = (\<lambda>f. \<lparr>discovery = (\<lambda>i. \<lparr>emit_raises = None, pong_batches = [[\<lparr>pong_skill_id = ''A'', can_handle = Some (PyBool True)\<rparr>, \<lparr>pong_skill_id = ''B'', can_handle = Some (PyBool True)\<rparr>]]\<rparr>),
      response = (\<lambda>s. if s = ''A'' then Some [(''result'', PyBool False)] else if s = ''B'' then Some [(''result'', PyBool True)] else None),
      legacy_response = None\<rparr>)\<rparr>
     \<lparr>utterances = [''what is the weather''], msg_context = []\<rparr>
     \<lparr>listeners = [], sent = [], activated = [], error_sounds = 0, calls = []\<rparr>)))
       = [Converse_with_skills, Match_high, Match_intent, Common_qa_match, High_prio])"
    by (simp add: eval_defs)
qed

theorem handled_reply_stops_band_witness:
  "fallback_range
     \<lparr>fallback_priorities = [], fallback_mode = ACCEPT_ALL,
      fallback_blacklist = [], fallback_whitelist = []\<rparr>
     [(''B'', PyInt 4), (''A'', PyInt 2)]
     \<lparr>discovery = (\<lambda>i. \<lparr>emit_raises = None, pong_batches = [[\<lparr>pong_skill_id = ''A'', can_handle = Some (PyBool True)\<rparr>, \<lparr>pong_skill_id = ''B'', can_handle = Some (PyBool True)\<rparr>]]\<rparr>),
      response = (\<lambda>s. if s = ''A'' then Some [(''result'', PyBool False)] else if s = ''B'' then Some [(''result'', PyBool True)] else None),
      legacy_response = None\<rparr>
     [''what is the weather''] ''en-us'' \<lparr>start = 0, stop = 5\<rparr>
     \<lparr>listeners = [], sent = [], activated = [], error_sounds = 0, calls = []\<rparr>
   = (Inr (Some fallback_match),
      \<lparr>listeners = [],
       sent = [Fallback_ping [''what is the weather''] ''en-us'',
               Fallback_ping [''what is the weather''] ''en-us'',
               Fallback_request ''A'' [''what is the weather''] ''what is the weather'' ''en-us'',
               Fallback_request ''B'' [''what is the weather''] ''what is the weather'' ''en-us''],
       activated = [], error_sounds = 0, calls = []\<rparr>)"
  using handled_reply_stops_band [where cfg = "\<lparr>fallback_priorities = [], fallback_mode = ACCEPT_ALL,
      fallback_blacklist = [], fallback_whitelist = []\<rparr>"
      and reg = "[(''B'', PyInt 4), (''A'', PyInt 2)]"
      and env = "\<lparr>discovery = (\<lambda>i. \<lparr>emit_raises = None, pong_batches = [[\<lparr>pong_skill_id = ''A'', can_handle = Some (PyBool True)\<rparr>, \<lparr>pong_skill_id = ''B'', can_handle = Some (PyBool True)\<rparr>]]\<rparr>),
      response = (\<lambda>s. if s = ''A'' then Some [(''result'', PyBool False)] else if s = ''B'' then Some [(''result'', PyBool True)] else None),
      legacy_response = None\<rparr>"
      and us = "[''what is the weather'']" and lang = "''en-us''" and r = "\<lparr>start = 0, stop = 5\<rparr>"
      and w = "\<lparr>listeners = [], sent = [], activated = [], error_sounds = 0, calls = []\<rparr>"
      and res = "fst (fallback_range
     \<lparr>fallback_priorities = [], fallback_mode = ACCEPT_ALL,
      fallback_blacklist = [], fallback_whitelist = []\<rparr>
     [(''B'', PyInt 4), (''A'', PyInt 2)]
     \<lparr>discovery = (\<lambda>i. \<lparr>emit_raises = None, pong_batches = [[\<lparr>pong_skill_id = ''A'', can_handle = Some (PyBool True)\<rparr>, \<lparr>pong_skill_id = ''B'', can_handle = Some (PyBool True)\<rparr>]]\<rparr>),
      response = (\<lambda>s. if s = ''A'' then Some [(''result'', PyBool False)] else if s = ''B'' then Some [(''result'', PyBool True)] else None),
      legacy_response = None\<rparr>
     [''what is the weather''] ''en-us'' \<lparr>start = 0, stop = 5\<rparr>
     \<lparr>listeners = [], sent = [], activated = [], error_sounds = 0, calls = []\<rparr>)"
      and w' = "snd (fallback_range
     \<lparr>fallback_priorities = [], fallback_mode = ACCEPT_ALL,
      fallback_blacklist = [], fallback_whitelist = []\<rparr>
     [(''B'', PyInt 4), (''A'', PyInt 2)]
     \<lparr>discovery = (\<lambda>i. \<lparr>emit_raises = None, pong_batches = [[\<lparr>pong_skill_id = ''A'', can_handle = Some (PyBool True)\<rparr>, \<lparr>pong_skill_id = ''B'', can_handle = Some (PyBool True)\<rparr>]]\<rparr>),
      response = (\<lambda>s. if s = ''A'' then Some [(''result'', PyBool False)] else if s = ''B'' then Some [(''result'', PyBool True)] else None),
      legacy_response = None\<rparr>
     [''what is the weather''] ''en-us'' \<lparr>start = 0, stop = 5\<rparr>
     \<lparr>listeners = [], sent = [], activated = [], error_sounds = 0, calls = []\<rparr>)"]
  by (simp add: eval_defs)

text \<open>
  Claim C7. For a request that carries at least one utterance, \<open>attempt_fallback\<close>
  returns a false value when the reply declines (no reply before the timeout, a reply
  with an \<open>error\<close> field, or a reply whose \<open>result\<close> is absent or false), and it returns
  \<open>False\<close> itself when there is no reply or the reply has an \<open>error\<close> field. The loop of
  \<open>_fallback_range\<close> then goes on with the candidates that follow, as if the declining
  one had not been in the list: when every candidate before the one at position \<open>k\<close>
  declines, the candidate at \<open>k\<close> is sent its request, provided the access policy lets
  it fall back.
\<close>

theorem decline_moves_to_next_candidate:
  "(declines (response env sid) \<longrightarrow>
      (\<exists>v. fst (attempt_fallback cfg env (u # us) sid lang w) = Inr v \<and> \<not> truthy v)
      \<and> attempt_handlers cfg env (u # us) lang ((sid, p) # later) w
         = attempt_handlers cfg env (u # us) lang later
             (snd (attempt_fallback cfg env (u # us) sid lang w)))
   \<and> (response env sid = None
       \<or> (\<exists>data. response env sid = Some data \<and> ''error'' \<in> set (dict_keys data))
      \<longrightarrow> fst (attempt_fallback cfg env (u # us) sid lang w) = Inr (PyBool False))
   \<and> (attempt_handlers cfg env (u # us) lang hs w = (res, w') \<and> k < length hs
       \<and> fallback_allowed cfg (fst (hs ! k))
       \<and> (\<forall>i<k. declines (response env (fst (hs ! i))))
      \<longrightarrow> fst (hs ! k) \<in> set (requested (emitted w w')))"
  using attempt_fallback_decline [of env sid cfg u us lang w]
    attempt_handlers_skip_decline [of env sid cfg u us lang p later w]
    attempt_fallback_no_reply_or_error [of env sid cfg u us lang w]
    attempt_handlers_reaches [of cfg env u us lang hs w res w' k]
  by blast

theorem decline_moves_to_next_candidate_witness:
  "fst (attempt_fallback
     \<lparr>fallback_priorities = [], fallback_mode = ACCEPT_ALL,
      fallback_blacklist = [], fallback_whitelist = []\<rparr>
     \<lparr>discovery = (\<lambda>i. \<lparr>emit_raises = None, pong_batches = [[\<lparr>pong_skill_id = ''A'', can_handle = Some (PyBool True)\<rparr>, \<lparr>pong_skill_id = ''B'', can_handle = Some (PyBool True)\<rparr>]]\<rparr>),
      response = (\<lambda>s. if s = ''A'' then Some [(''error'', PyStr ''failed'')] else Some [(''result'', PyBool True)]),
      legacy_response = None\<rparr>
     [''hello''] ''A'' ''en-us''
     \<lparr>listeners = [], sent = [], activated = [], error_sounds = 0, calls = []\<rparr>) = Inr (PyBool False)
   \<and> requested (emitted \<lparr>listeners = [], sent = [], activated = [], error_sounds = 0, calls = []\<rparr>
       (snd (attempt_handlers
     \<lparr>fallback_priorities = [], fallback_mode = ACCEPT_ALL,
      fallback_blacklist = [], fallback_whitelist = []\<rparr>
     \<lparr>discovery = (\<lambda>i. \<lparr>emit_raises = None, pong_batches = [[\<lparr>pong_skill_id = ''A'', can_handle = Some (PyBool True)\<rparr>, \<lparr>pong_skill_id = ''B'', can_handle = Some (PyBool True)\<rparr>]]\<rparr>),
      response = (\<lambda>s. if s = ''A'' then Some [(''error'', PyStr ''failed'')] else Some [(''result'', PyBool True)]),
      legacy_response = None\<rparr>
     [''hello''] ''en-us'' [(''A'', PyInt 2), (''B'', PyInt 4)]
     \<lparr>listeners = [], sent = [], activated = [], error_sounds = 0, calls = []\<rparr>)))
     = [''A'', ''B'']"
  using decline_moves_to_next_candidate [where cfg = "\<lparr>fallback_priorities = [], fallback_mode = ACCEPT_ALL,
      fallback_blacklist = [], fallback_whitelist = []\<rparr>"
      and env = "\<lparr>discovery = (\<lambda>i. \<lparr>emit_raises = None, pong_batches = [[\<lparr>pong_skill_id = ''A'', can_handle = Some (PyBool True)\<rparr>, \<lparr>pong_skill_id = ''B'', can_handle = Some (PyBool True)\<rparr>]]\<rparr>),
      response = (\<lambda>s. if s = ''A'' then Some [(''error'', PyStr ''failed'')] else Some [(''result'', PyBool True)]),
      legacy_response = None\<rparr>"
      and u = "''hello''" and us = "[]" and lang = "''en-us''" and sid = "''A''"
      and p = "PyInt 2" and later = "[(''B'', PyInt 4)]"
      and hs = "[(''A'', PyInt 2), (''B'', PyInt 4)]" and k = 1
      and w = "\<lparr>listeners = [], sent = [], activated = [], error_sounds = 0, calls = []\<rparr>"
      and res = "fst (attempt_handlers
     \<lparr>fallback_priorities = [], fallback_mode = ACCEPT_ALL,
      fallback_blacklist = [], fallback_whitelist = []\<rparr>
     \<lparr>discovery = (\<lambda>i. \<lparr>emit_raises = None, pong_batches = [[\<lparr>pong_skill_id = ''A'', can_handle = Some (PyBool True)\<rparr>, \<lparr>pong_skill_id = ''B'', can_handle = Some (PyBool True)\<rparr>]]\<rparr>),
      response = (\<lambda>s. if s = ''A'' then Some [(''error'', PyStr ''failed'')] else Some [(''result'', PyBool True)]),
      legacy_response = None\<rparr>
     [''hello''] ''en-us'' [(''A'', PyInt 2), (''B'', PyInt 4)]
     \<lparr>listeners = [], sent = [], activated = [], error_sounds = 0, calls = []\<rparr>)"
      and w' = "snd (attempt_handlers
     \<lparr>fallback_priorities = [], fallback_mode = ACCEPT_ALL,
      fallback_blacklist = [], fallback_whitelist = []\<rparr>
     \<lparr>discovery = (\<lambda>i. \<lparr>emit_raises = None, pong_batches = [[\<lparr>pong_skill_id = ''A'', can_handle = Some (PyBool True)\<rparr>, \<lparr>pong_skill_id = ''B'', can_handle = Some (PyBool True)\<rparr>]]\<rparr>),
      response = (\<lambda>s. if s = ''A'' then Some [(''error'', PyStr ''failed'')] else Some [(''result'', PyBool True)]),
      legacy_response = None\<rparr>
     [''hello''] ''en-us'' [(''A'', PyInt 2), (''B'', PyInt 4)]
     \<lparr>listeners = [], sent = [], activated = [], error_sounds = 0, calls = []\<rparr>)"]
  by (simp add: eval_defs)

text \<open>
  Claim C8. When \<open>handle_utterance\<close> has called the nine matching functions and each has
  returned no match, it returns a null match, emits \<open>complete_intent_failure\<close> exactly
  once and plays the error sound once. That is the case when no fallback skill is
  registered, no matcher matches, nobody answers the old-style fallback request and the
  message carries an utterance. When a matching function returns a match,
  \<open>complete_intent_failure\<close> is not emitted and the error sound is not played.
\<close>

theorem exhaustion_emits_one_failure_signal:
  "handle_utterance cfg fcfg reg env msg0 w = (out, w') \<longrightarrow>
     (called w w' = map (\<lambda>f. (f, Inr None)) match_funcs \<longrightarrow>
        (\<exists>c. out = Returned None c)
        \<and> length (filter (\<lambda>m. m = Complete_intent_failure) (emitted w w')) = 1
        \<and> error_sounds w' = Suc (error_sounds w))
     \<and> ((\<exists>x \<in> set (called w w'). \<exists>m. snd x = Inr (Some m)) \<longrightarrow>
        Complete_intent_failure \<notin> set (emitted w w') \<and> error_sounds w' = error_sounds w)
     \<and> (reg = [] \<and> (\<forall>f us lang. matcher env f us lang = Inr None)
         \<and> (\<forall>f. legacy_response (skills env f) = None)
         \<and> transformers env msg0 = Inr msg \<and> utterances msg \<noteq> []
         \<and> disambiguate_lang cfg (get_message_lang env msg) (msg_context msg) = Inr lang \<longrightarrow>
        out = Returned None (msg_context msg)
        \<and> length (filter (\<lambda>m. m = Complete_intent_failure) (emitted w w')) = 1)"
proof
  assume run: "handle_utterance cfg fcfg reg env msg0 w = (out, w')"
  note sig = handle_utterance_signal [OF run]
  have a: "called w w' = map (\<lambda>f. (f, Inr None)) match_funcs \<longrightarrow>
        (\<exists>c. out = Returned None c)
        \<and> length (filter (\<lambda>m. m = Complete_intent_failure) (emitted w w')) = 1
        \<and> error_sounds w' = Suc (error_sounds w)"
  proof
    assume "called w w' = map (\<lambda>f. (f, Inr None)) match_funcs"
    from all_declined_returns_none [OF run this] have n: "\<exists>c. out = Returned None c" .
    with sig show "(\<exists>c. out = Returned None c)
        \<and> length (filter (\<lambda>m. m = Complete_intent_failure) (emitted w w')) = 1
        \<and> error_sounds w' = Suc (error_sounds w)"
      by simp
  qed
  have b: "(\<exists>x \<in> set (called w w'). \<exists>m. snd x = Inr (Some m)) \<longrightarrow>
        Complete_intent_failure \<notin> set (emitted w w') \<and> error_sounds w' = error_sounds w"
  proof
    assume "\<exists>x \<in> set (called w w'). \<exists>m. snd x = Inr (Some m)"
    then obtain x m where "x \<in> set (called w w')" "snd x = Inr (Some m)" by blast
    from some_match_not_none [OF run this] have n: "\<not> (\<exists>c. out = Returned None c)" .
    from sig [unfolded if_not_P [OF n]]
    have "filter (\<lambda>m. m = Complete_intent_failure) (emitted w w') = []"
      and e: "error_sounds w' = error_sounds w" by simp_all
    then have "Complete_intent_failure \<notin> set (emitted w w')"
      by (simp add: filter_failure_Nil)
    with e show "Complete_intent_failure \<notin> set (emitted w w') \<and> error_sounds w' = error_sounds w"
      by simp
  qed
  have c: "reg = [] \<and> (\<forall>f us lang. matcher env f us lang = Inr None)
         \<and> (\<forall>f. legacy_response (skills env f) = None)
         \<and> transformers env msg0 = Inr msg \<and> utterances msg \<noteq> []
         \<and> disambiguate_lang cfg (get_message_lang env msg) (msg_context msg) = Inr lang \<longrightarrow>
        out = Returned None (msg_context msg)
        \<and> length (filter (\<lambda>m. m = Complete_intent_failure) (emitted w w')) = 1"
  proof
    assume h: "reg = [] \<and> (\<forall>f us lang. matcher env f us lang = Inr None)
         \<and> (\<forall>f. legacy_response (skills env f) = None)
         \<and> transformers env msg0 = Inr msg \<and> utterances msg \<noteq> []
         \<and> disambiguate_lang cfg (get_message_lang env msg) (msg_context msg) = Inr lang"
    then have "fst (handle_utterance cfg fcfg [] env msg0 w) = Returned None (msg_context msg)"
      by (intro no_handlers_returns_none [where lang = lang]) simp_all
    with run h have o: "out = Returned None (msg_context msg)" by simp
    with sig(1) show "out = Returned None (msg_context msg)
        \<and> length (filter (\<lambda>m. m = Complete_intent_failure) (emitted w w')) = 1"
      by simp
  qed
  from a b c show "(called w w' = map (\<lambda>f. (f, Inr None)) match_funcs \<longrightarrow>
        (\<exists>c. out = Returned None c)
        \<and> length (filter (\<lambda>m. m = Complete_intent_failure) (emitted w w')) = 1
        \<and> error_sounds w' = Suc (error_sounds w))
     \<and> ((\<exists>x \<in> set (called w w'). \<exists>m. snd x = Inr (Some m)) \<longrightarrow>
        Complete_intent_failure \<notin> set (emitted w w') \<and> error_sounds w' = error_sounds w)
     \<and> (reg = [] \<and> (\<forall>f us lang. matcher env f us lang = Inr None)
         \<and> (\<forall>f. legacy_response (skills env f) = None)
         \<and> transformers env msg0 = Inr msg \<and> utterances msg \<noteq> []
         \<and> disambiguate_lang cfg (get_message_lang env msg) (msg_context msg) = Inr lang \<longrightarrow>
        out = Returned None (msg_context msg)
        \<and> length (filter (\<lambda>m. m = Complete_intent_failure) (emitted w w')) = 1)"
    by (intro conjI)
qed

theorem exhaustion_emits_one_failure_signal_witness:
  "fst (handle_utterance [(''lang'', PyStr ''en-us'')]
     \<lparr>fallback_priorities = [], fallback_mode = ACCEPT_ALL,
      fallback_blacklist = [], fallback_whitelist = []\<rparr>
     []
     \<lparr>transformers = Inr, get_message_lang = (\<lambda>m. ''en-us''),
      matcher = (\<lambda>f us l. Inr None),
      skills = (\<lambda>f. \<lparr>discovery = (\<lambda>i. \<lparr>emit_raises = None, pong_batches = []\<rparr>),
      response = (\<lambda>s. None),
      legacy_response = None\<rparr>)\<rparr>
     \<lparr>utterances = [''what is the weather''], msg_context = []\<rparr>
     \<lparr>listeners = [], sent = [], activated = [], error_sounds = 0, calls = []\<rparr>) = Returned None []
   \<and> filter (\<lambda>m. m = Complete_intent_failure)
        (emitted \<lparr>listeners = [], sent = [], activated = [], error_sounds = 0, calls = []\<rparr>
           (snd (handle_utterance [(''lang'', PyStr ''en-us'')]
     \<lparr>fallback_priorities = [], fallback_mode = ACCEPT_ALL,
      fallback_blacklist = [], fallback_whitelist = []\<rparr>
     []
     \<lparr>transformers = Inr, get_message_lang = (\<lambda>m. ''en-us''),
      matcher = (\<lambda>f us l. Inr None),
      skills = (\<lambda>f. \<lparr>discovery = (\<lambda>i. \<lparr>emit_raises = None, pong_batches = []\<rparr>),
      response = (\<lambda>s. None),
      legacy_response = None\<rparr>)\<rparr>
     \<lparr>utterances = [''what is the weather''], msg_context = []\<rparr>
     \<lparr>listeners = [], sent = [], activated = [], error_sounds = 0, calls = []\<rparr>)))
     = [Complete_intent_failure]
   \<and> Complete_intent_failure \<notin> set (emitted \<lparr>listeners = [], sent = [], activated = [], error_sounds = 0, calls = []\<rparr>
        (snd (handle_utterance [(''lang'', PyStr ''en-us'')]
     \<lparr>fallback_priorities = [], fallback_mode = ACCEPT_ALL,
      fallback_blacklist = [], fallback_whitelist = []\<rparr>
     [(''A'', PyInt 2)]
     \<lparr>transformers = Inr, get_message_lang = (\<lambda>m. ''en-us''),
      matcher = (\<lambda>f us l. if f = Match_intent then Inr (Some \<lparr>intent_service = ''Adapt'', intent_type = Some ''weather:WeatherIntent'', intent_data = [], skill_id = Some ''weather''\<rparr>) else Inr None),
      skills = (\<lambda>f. \<lparr>discovery = (\<lambda>i. \<lparr>emit_raises = None, pong_batches = [[\<lparr>pong_skill_id = ''A'', can_handle = Some (PyBool True)\<rparr>]]\<rparr>),
      response = (\<lambda>s. Some [(''result'', PyBool True)]),
      legacy_response = None\<rparr>)\<rparr>
     \<lparr>utterances = [''what is the weather''], msg_context = []\<rparr>
     \<lparr>listeners = [], sent = [], activated = [], error_sounds = 0, calls = []\<rparr>)))"
  using exhaustion_emits_one_failure_signal [where cfg = "[(''lang'', PyStr ''en-us'')]"
      and fcfg = "\<lparr>fallback_priorities = [], fallback_mode = ACCEPT_ALL,
      fallback_blacklist = [], fallback_whitelist = []\<rparr>"
      and reg = "[]"
      and env = "\<lparr>transformers = Inr, get_message_lang = (\<lambda>m. ''en-us''),
      matcher = (\<lambda>f us l. Inr None),
      skills = (\<lambda>f. \<lparr>discovery = (\<lambda>i. \<lparr>emit_raises = None, pong_batches = []\<rparr>),
      response = (\<lambda>s. None),
      legacy_response = None\<rparr>)\<rparr>"
      and ?msg0.0 = "\<lparr>utterances = [''what is the weather''], msg_context = []\<rparr>"
      and msg = "\<lparr>utterances = [''what is the weather''], msg_context = []\<rparr>" and lang = "''en-us''"
      and w = "\<lparr>listeners = [], sent = [], activated = [], error_sounds = 0, calls = []\<rparr>"
      and out = "fst (handle_utterance [(''lang'', PyStr ''en-us'')]
     \<lparr>fallback_priorities = [], fallback_mode = ACCEPT_ALL,
      fallback_blacklist = [], fallback_whitelist = []\<rparr>
     []
     \<lparr>transformers = Inr, get_message_lang = (\<lambda>m. ''en-us''),
      matcher = (\<lambda>f us l. Inr None),
      skills = (\<lambda>f. \<lparr>discovery = (\<lambda>i. \<lparr>emit_raises = None, pong_batches = []\<rparr>),
      response = (\<lambda>s. None),
      legacy_response = None\<rparr>)\<rparr>
     \<lparr>utterances = [''what is the weather''], msg_context = []\<rparr>
     \<lparr>listeners = [], sent = [], activated = [], error_sounds = 0, calls = []\<rparr>)"
      and w' = "snd (handle_utterance [(''lang'', PyStr ''en-us'')]
     \<lparr>fallback_priorities = [], fallback_mode = ACCEPT_ALL,
      fallback_blacklist = [], fallback_whitelist = []\<rparr>
     []
     \<lparr>transformers = Inr, get_message_lang = (\<lambda>m. ''en-us''),
      matcher = (\<lambda>f us l. Inr None),
      skills = (\<lambda>f. \<lparr>discovery = (\<lambda>i. \<lparr>emit_raises = None, pong_batches = []\<rparr>),
      response = (\<lambda>s. None),
      legacy_response = None\<rparr>)\<rparr>
     \<lparr>utterances = [''what is the weather''], msg_context = []\<rparr>
     \<lparr>listeners = [], sent = [], activated = [], error_sounds = 0, calls = []\<rparr>)"]
    exhaustion_emits_one_failure_signal [where cfg = "[(''lang'', PyStr ''en-us'')]"
      and fcfg = "\<lparr>fallback_priorities = [], fallback_mode = ACCEPT_ALL,
      fallback_blacklist = [], fallback_whitelist = []\<rparr>"
      and reg = "[(''A'', PyInt 2)]"
      and env = "\<lparr>transformers = Inr, get_message_lang = (\<lambda>m. ''en-us''),
      matcher = (\<lambda>f us l. if f = Match_intent then Inr (Some \<lparr>intent_service = ''Adapt'', intent_type = Some ''weather:WeatherIntent'', intent_data = [], skill_id = Some ''weather''\<rparr>) else Inr None),
      skills = (\<lambda>f. \<lparr>discovery = (\<lambda>i. \<lparr>emit_raises = None, pong_batches = [[\<lparr>pong_skill_id = ''A'', can_handle = Some (PyBool True)\<rparr>]]\<rparr>),
      response = (\<lambda>s. Some [(''result'', PyBool True)]),
      legacy_response = None\<rparr>)\<rparr>"
      and ?msg0.0 = "\<lparr>utterances = [''what is the weather''], msg_context = []\<rparr>"
      and msg = "\<lparr>utterances = [''what is the weather''], msg_context = []\<rparr>" and lang = "''en-us''"
      and w = "\<lparr>listeners = [], sent = [], activated = [], error_sounds = 0, calls = []\<rparr>"
      and out = "fst (handle_utterance [(''lang'', PyStr ''en-us'')]
     \<lparr>fallback_priorities = [], fallback_mode = ACCEPT_ALL,
      fallback_blacklist = [], fallback_whitelist = []\<rparr>
     [(''A'', PyInt 2)]
     \<lparr>transformers = Inr, get_message_lang = (\<lambda>m. ''en-us''),
      matcher = (\<lambda>f us l. if f = Match_intent then Inr (Some \<lparr>intent_service = ''Adapt'', intent_type = Some ''weather:WeatherIntent'', intent_data = [], skill_id = Some ''weather''\<rparr>) else Inr None),
      skills = (\<lambda>f. \<lparr>discovery = (\<lambda>i. \<lparr>emit_raises = None, pong_batches = [[\<lparr>pong_skill_id = ''A'', can_handle = Some (PyBool True)\<rparr>]]\<rparr>),
      response = (\<lambda>s. Some [(''result'', PyBool True)]),
      legacy_response = None\<rparr>)\<rparr>
     \<lparr>utterances = [''what is the weather''], msg_context = []\<rparr>
     \<lparr>listeners = [], sent = [], activated = [], error_sounds = 0, calls = []\<rparr>)"
      and w' = "snd (handle_utterance [(''lang'', PyStr ''en-us'')]
     \<lparr>fallback_priorities = [], fallback_mode = ACCEPT_ALL,
      fallback_blacklist = [], fallback_whitelist = []\<rparr>
     [(''A'', PyInt 2)]
     \<lparr>transformers = Inr, get_message_lang = (\<lambda>m. ''en-us''),
      matcher = (\<lambda>f us l. if f = Match_intent then Inr (Some \<lparr>intent_service = ''Adapt'', intent_type = Some ''weather:WeatherIntent'', intent_data = [], skill_id = Some ''weather''\<rparr>) else Inr None),
      skills = (\<lambda>f. \<lparr>discovery = (\<lambda>i. \<lparr>emit_raises = None, pong_batches = [[\<lparr>pong_skill_id = ''A'', can_handle = Some (PyBool True)\<rparr>]]\<rparr>),
      response = (\<lambda>s. Some [(''result'', PyBool True)]),
      legacy_response = None\<rparr>)\<rparr>
     \<lparr>utterances = [''what is the weather''], msg_context = []\<rparr>
     \<lparr>listeners = [], sent = [], activated = [], error_sounds = 0, calls = []\<rparr>)"]
  by (simp add: eval_defs)

text \<open>
  Claim C9, as the code has it. \<open>_collect_fallback_skills\<close> takes its \<open>handle_ack\<close>
  callback off the bus before it returns, both when every skill has answered and when
  the wait ends at the deadline: whenever no statement between \<open>bus.on\<close> and
  \<open>bus.remove\<close> raises, the callbacks on the bus after the call are those before it.
  The function has no \<open>try\<close> and \<open>finally\<close>: an exception raised in between leaves the
  callback subscribed, which the last theorem shows for an emit that raises.
\<close>

theorem pong_listener_removed_on_return:
  "(emit_raises d = None \<longrightarrow>
      listeners (snd (collect_fallback_skills reg us lang r d w)) = listeners w)
   \<and> (collect_fallback_skills reg us lang r d w = (Inr ids, w')
         \<longrightarrow> listeners w' = listeners w)"
  using collect_fallback_skills_returns [of d reg us lang r w]
    collect_fallback_skills_effect(3) [of reg us lang r d w "Inr ids" w' ids]
  by blast

theorem pong_listener_removed_on_return_witness:
  "collect_fallback_skills [(''A'', PyInt 2)] [''hello''] ''en-us'' \<lparr>start = 0, stop = 5\<rparr>
     \<lparr>emit_raises = None, pong_batches = [[\<lparr>pong_skill_id = ''A'', can_handle = Some (PyBool True)\<rparr>]]\<rparr>
     \<lparr>listeners = [], sent = [], activated = [], error_sounds = 0, calls = []\<rparr>
     = (Inr [''A''],
        \<lparr>listeners = [], sent = [Fallback_ping [''hello''] ''en-us''],
         activated = [], error_sounds = 0, calls = []\<rparr>)
   \<and> collect_fallback_skills [(''A'', PyInt 2)] [''hello''] ''en-us'' \<lparr>start = 0, stop = 5\<rparr>
     \<lparr>emit_raises = None, pong_batches = [[], []]\<rparr>
     \<lparr>listeners = [], sent = [], activated = [], error_sounds = 0, calls = []\<rparr>
     = (Inr [],
        \<lparr>listeners = [], sent = [Fallback_ping [''hello''] ''en-us''],
         activated = [], error_sounds = 0, calls = []\<rparr>)"
  using pong_listener_removed_on_return [where d = "\<lparr>emit_raises = None, pong_batches = [[\<lparr>pong_skill_id = ''A'', can_handle = Some (PyBool True)\<rparr>]]\<rparr>"
      and reg = "[(''A'', PyInt 2)]" and us = "[''hello'']" and lang = "''en-us''" and r = "\<lparr>start = 0, stop = 5\<rparr>"
      and w = "\<lparr>listeners = [], sent = [], activated = [], error_sounds = 0, calls = []\<rparr>"
      and ids = "[''A'']"
      and w' = "\<lparr>listeners = [], sent = [Fallback_ping [''hello''] ''en-us''],
                activated = [], error_sounds = 0, calls = []\<rparr>"]
    pong_listener_removed_on_return [where d = "\<lparr>emit_raises = None, pong_batches = [[], []]\<rparr>"
      and reg = "[(''A'', PyInt 2)]" and us = "[''hello'']" and lang = "''en-us''" and r = "\<lparr>start = 0, stop = 5\<rparr>"
      and w = "\<lparr>listeners = [], sent = [], activated = [], error_sounds = 0, calls = []\<rparr>"
      and ids = "[]"
      and w' = "\<lparr>listeners = [], sent = [Fallback_ping [''hello''] ''en-us''],
                activated = [], error_sounds = 0, calls = []\<rparr>"]
  by (simp add: eval_defs)

theorem pong_listener_left_by_exception:
  "collect_fallback_skills [(''A'', PyInt 2)] [''hello''] ''en-us'' \<lparr>start = 0, stop = 5\<rparr>
     \<lparr>emit_raises = Some BusError, pong_batches = []\<rparr>
     \<lparr>listeners = [], sent = [], activated = [], error_sounds = 0, calls = []\<rparr>
     = (Inl BusError,
        \<lparr>listeners = [''ovos.skills.fallback.pong''], sent = [],
         activated = [], error_sounds = 0, calls = []\<rparr>)"
  by (simp add: eval_defs)

text \<open>
  Claim C10. When the \<open>priority\<close> field of a register event is absent, \<open>None\<close> or any
  other false value, the integer 0 included, and the configuration has no override for
  the skill, the registry stores 101 for it: the skill is in the band \<open>(90, 101]\<close> and in
  neither of the other two.
\<close>

theorem falsy_priority_registers_at_101:
  "dict_get (fallback_priorities cfg) sid = None \<Longrightarrow>
   (case p of None \<Rightarrow> True | Some v \<Rightarrow> \<not> truthy v) \<Longrightarrow>
   dict_get (handle_register_fallback cfg sid p reg) sid = Some (PyInt 101)
   \<and> in_band \<lparr>start = 90, stop = 101\<rparr> (PyInt 101) = Inr True
   \<and> in_band \<lparr>start = 0, stop = 5\<rparr> (PyInt 101) = Inr False
   \<and> in_band \<lparr>start = 5, stop = 90\<rparr> (PyInt 101) = Inr False"
  by (auto simp: register_stores py_or_def in_band_def split: option.splits)

theorem falsy_priority_registers_at_101_witness:
  "dict_get (handle_register_fallback
               \<lparr>fallback_priorities = [], fallback_mode = ACCEPT_ALL,
                fallback_blacklist = [], fallback_whitelist = []\<rparr> ''H'' (Some (PyInt 0)) []) ''H''
     = Some (PyInt 101)
   \<and> \<not> truthy (PyInt 0)"
  using falsy_priority_registers_at_101 [of
          "\<lparr>fallback_priorities = [], fallback_mode = ACCEPT_ALL,
            fallback_blacklist = [], fallback_whitelist = []\<rparr>" "''H''" "Some (PyInt 0)" "[]"]
  by (simp add: dict_get_def)

end
